theory Spec2Isabelle
  imports Complex_Main "HOL-Library.AList"
begin

section \<open>Modelling conventions\<close>

text \<open>
  The development embeds three compiled JavaScript classes of the repository:
  \<^item> \<open>SQONValidation\<close> (the validation compiler: \<open>parseValidation\<close>, \<open>parseRules\<close>,
    \<open>validateRulesAgainstSchema\<close>, \<open>getSchemaType\<close>, \<open>parseValue\<close>, ...),
  \<^item> \<open>SQON\<close> (the document orchestrator: \<open>parseLines\<close>, \<open>checkSectionOrder\<close>,
    \<open>parseSchema\<close>, \<open>parseValidation\<close>, \<open>parseRecords\<close>),
  \<^item> \<open>Validator\<close> (the runtime validator: \<open>validate\<close>, \<open>validateSchema\<close>,
    \<open>validateFields\<close>).

  Conventions used throughout:
  \<^item> A JavaScript exception is a value \<open>Inl e\<close> of a sum type; a normal return is \<open>Inr\<close>.
  \<^item> Mutable instance fields (\<open>this.errors\<close>, \<open>this.position\<close>, ...) are passed
    and returned explicitly.
  \<^item> Strings are lists of 8-bit characters: source text is taken to have code points below
    U+0100. The white space \<open>trim\<close> removes is, in this range, the ASCII white space and
    the no-break space; \<open>toUpperCase\<close> is modelled on ASCII text (the letters
    \<open>a\<close>..\<open>z\<close>).
  \<^item> A plain object is an association list of its own properties, enumerated in insertion
    order. An assignment \<open>obj[k] = v\<close> in \<open>parseRules\<close> and \<open>parseObject\<close> is
    \<open>setOwn\<close>: it makes an own property unless \<open>k\<close> is \<open>__proto__\<close>. Elsewhere, keys
    of plain objects that are array indices (which JavaScript enumerates first) or names
    of members of \<open>Object.prototype\<close> (\<open>constructor\<close>, \<open>__proto__\<close>, ...) are outside
    the model.
  \<^item> A JavaScript number is represented by the exact rational value of the literal it was
    read from; it stands for the double nearest to that rational.
\<close>

datatype js_error = TypeError | SyntaxError | Error string

section \<open>String primitives\<close>

definition sq :: string where
  "sq = [CHR 0x27]"

definition dq :: string where
  "dq = [CHR 0x22]"

text \<open>The white space of \<open>String.prototype.trim\<close> below U+0100: space, tab, line
  feed, vertical tab, form feed, carriage return and the no-break space.\<close>

definition isWhite :: "char \<Rightarrow> bool" where
  "isWhite c = (c \<in> set [CHR 0x20, CHR 0x09, CHR 0x0A, CHR 0x0B, CHR 0x0C, CHR 0x0D, CHR 0xA0])"

definition isDigit :: "char \<Rightarrow> bool" where
  "isDigit c = (c \<in> set ''0123456789'')"

text \<open>\<open>String.prototype.trim\<close> and \<open>trimStart\<close>.\<close>

definition trimStart :: "string \<Rightarrow> string" where
  "trimStart s = dropWhile isWhite s"

definition trim :: "string \<Rightarrow> string" where
  "trim s = rev (dropWhile isWhite (rev (dropWhile isWhite s)))"

definition startsWith :: "string \<Rightarrow> string \<Rightarrow> bool" where
  "startsWith p s = (take (length p) s = p)"

definition endsWith :: "string \<Rightarrow> string \<Rightarrow> bool" where
  "endsWith p s = (length p \<le> length s \<and> drop (length s - length p) s = p)"

fun includesStr :: "string \<Rightarrow> string \<Rightarrow> bool" where
  "includesStr p [] = (p = [])"
| "includesStr p (c # cs) = (startsWith p (c # cs) \<or> includesStr p cs)"

text \<open>\<open>s.slice(1, -1)\<close>: the string without its first and last character (empty when
  the string has fewer than two characters).\<close>

definition slice1 :: "string \<Rightarrow> string" where
  "slice1 s = butlast (tl s)"

text \<open>\<open>s.split(sep)\<close>: for a non-empty separator the pieces between the
  non-overlapping occurrences of \<open>sep\<close>, scanned from the left (always at least one
  piece); for the empty separator the characters of the string. The second argument of
  \<open>splitFrom\<close> accumulates the current piece.\<close>

fun splitFrom :: "string \<Rightarrow> string \<Rightarrow> string \<Rightarrow> string list" where
  "splitFrom sep acc [] = [acc]"
| "splitFrom [] acc (c # cs) = splitFrom [] (acc @ [c]) cs"
| "splitFrom (d # ds) acc (c # cs) =
     (if startsWith (d # ds) (c # cs)
      then acc # splitFrom (d # ds) [] (drop (length ds) cs)
      else splitFrom (d # ds) (acc @ [c]) cs)"

definition split :: "string \<Rightarrow> string \<Rightarrow> string list" where
  "split sep s = (if sep = [] then map (\<lambda>c. [c]) s else splitFrom sep [] s)"

text \<open>The regular expressions \<open>/^\d+$/\<close> and \<open>/^\d+\.\d+$/\<close>.\<close>

definition allDigits :: "string \<Rightarrow> bool" where
  "allDigits s = (s \<noteq> [] \<and> list_all isDigit s)"

definition digitsDotDigits :: "string \<Rightarrow> bool" where
  "digitsDotDigits s =
     (let ip = takeWhile isDigit s; r = dropWhile isDigit s
      in ip \<noteq> [] \<and> (case r of [] \<Rightarrow> False | c # fp \<Rightarrow> c = CHR ''.'' \<and> allDigits fp))"

section \<open>Numeric literals\<close>

datatype jsnumber = NaN | PosInfinity | NegInfinity | Num rat

definition isNaN :: "jsnumber \<Rightarrow> bool" where
  "isNaN x = (x = NaN)"

definition negate :: "jsnumber \<Rightarrow> jsnumber" where
  "negate x = (case x of NaN \<Rightarrow> NaN | PosInfinity \<Rightarrow> NegInfinity
                | NegInfinity \<Rightarrow> PosInfinity | Num r \<Rightarrow> Num (- r))"

definition digitVal :: "char \<Rightarrow> nat" where
  "digitVal c =
     (if isDigit c then of_char c - 48
      else if c \<in> set ''abcdef'' then of_char c - 87
      else of_char c - 55)"

definition natOfDigits :: "nat \<Rightarrow> string \<Rightarrow> nat" where
  "natOfDigits base ds = foldl (\<lambda>n c. base * n + digitVal c) 0 ds"

text \<open>The mathematical value of the decimal literal \<open>ip.fp\<close>e\<open>e\<close>.\<close>

definition decValue :: "string \<Rightarrow> string \<Rightarrow> int \<Rightarrow> rat" where
  "decValue ip fp e =
     (let m = natOfDigits 10 (ip @ fp); x = e - int (length fp)
      in if 0 \<le> x then of_nat (m * 10 ^ nat x) else of_nat m / of_nat (10 ^ nat (- x)))"

text \<open>An exponent part \<open>[eE][+-]?\d+\<close> at the front of a string, with the rest.\<close>

definition exponentPart :: "string \<Rightarrow> (int \<times> string) option" where
  "exponentPart s =
     (case s of
        [] \<Rightarrow> None
      | c # t \<Rightarrow>
          if c \<noteq> CHR ''e'' \<and> c \<noteq> CHR ''E'' then None
          else
            (let (neg, u) = (case t of
                               [] \<Rightarrow> (False, t)
                             | d # v \<Rightarrow> if d = CHR ''-'' then (True, v)
                                        else if d = CHR ''+'' then (False, v) else (False, t));
                 ds = takeWhile isDigit u
             in if ds = [] then None
                else Some ((if neg then - int (natOfDigits 10 ds) else int (natOfDigits 10 ds)),
                           dropWhile isDigit u)))"

text \<open>The longest prefix that is a \<open>StrUnsignedDecimalLiteral\<close> of ECMAScript
  (\<open>Infinity\<close>, \<open>d+[.d*][exp]\<close> or \<open>.d+[exp]\<close>), its value and the rest.\<close>

definition unsignedDecimal :: "string \<Rightarrow> (jsnumber \<times> string) option" where
  "unsignedDecimal s =
     (if startsWith ''Infinity'' s then Some (PosInfinity, drop 8 s)
      else
        (let ip = takeWhile isDigit s; r1 = dropWhile isDigit s;
             (fp, r2) = (case r1 of
                           [] \<Rightarrow> ([], r1)
                         | c # t \<Rightarrow> if c = CHR ''.'' then (takeWhile isDigit t, dropWhile isDigit t)
                                    else ([], r1))
         in if ip = [] \<and> fp = [] then None
            else (case exponentPart r2 of
                    Some (e, r3) \<Rightarrow> Some (Num (decValue ip fp e), r3)
                  | None \<Rightarrow> Some (Num (decValue ip fp 0), r2))))"

definition strDecimalLiteral :: "string \<Rightarrow> (jsnumber \<times> string) option" where
  "strDecimalLiteral s =
     (case s of
        [] \<Rightarrow> None
      | c # t \<Rightarrow>
          if c = CHR ''+'' then unsignedDecimal t
          else if c = CHR ''-'' then map_option (\<lambda>(v, r). (negate v, r)) (unsignedDecimal t)
          else unsignedDecimal s)"

text \<open>\<open>parseFloat(s)\<close>: leading white space is skipped, the longest decimal prefix is
  read, anything after it is ignored.\<close>

definition parseFloat :: "string \<Rightarrow> jsnumber" where
  "parseFloat s = (case strDecimalLiteral (trimStart s) of Some (v, r) \<Rightarrow> v | None \<Rightarrow> NaN)"

text \<open>\<open>parseInt(s, 10)\<close>.\<close>

definition parseInt10 :: "string \<Rightarrow> jsnumber" where
  "parseInt10 s =
     (let t = trimStart s;
          (neg, u) = (case t of
                        [] \<Rightarrow> (False, t)
                      | d # v \<Rightarrow> if d = CHR ''-'' then (True, v)
                                 else if d = CHR ''+'' then (False, v) else (False, t));
          ds = takeWhile isDigit u
      in if ds = [] then NaN
         else if neg then Num (- of_nat (natOfDigits 10 ds)) else Num (of_nat (natOfDigits 10 ds)))"

text \<open>A \<open>NonDecimalIntegerLiteral\<close>: \<open>0x\<close>, \<open>0o\<close> or \<open>0b\<close> (either case) followed by
  at least one digit of the base. \<open>None\<close> when the string has no such prefix,
  \<open>Some None\<close> when the prefix is there and the digits are not.\<close>

definition nonDecimal :: "string \<Rightarrow> nat option option" where
  "nonDecimal s =
     (case s of
        z # b # ds \<Rightarrow>
          if z \<noteq> CHR ''0'' then None
          else if b \<in> set ''xX'' then
            Some (if ds \<noteq> [] \<and> list_all (\<lambda>c. c \<in> set ''0123456789abcdefABCDEF'') ds
                  then Some (natOfDigits 16 ds) else None)
          else if b \<in> set ''oO'' then
            Some (if ds \<noteq> [] \<and> list_all (\<lambda>c. c \<in> set ''01234567'') ds
                  then Some (natOfDigits 8 ds) else None)
          else if b \<in> set ''bB'' then
            Some (if ds \<noteq> [] \<and> list_all (\<lambda>c. c \<in> set ''01'') ds
                  then Some (natOfDigits 2 ds) else None)
          else None
      | _ \<Rightarrow> None)"

text \<open>\<open>Number(s)\<close> on a string (ECMAScript \<open>StringToNumber\<close>): white space on both sides
  is dropped, the empty string is 0, and the whole rest must be one literal.\<close>

definition toNumber :: "string \<Rightarrow> jsnumber" where
  "toNumber s =
     (let t = trim s
      in if t = [] then Num 0
         else (case nonDecimal t of
                 Some (Some n) \<Rightarrow> Num (of_nat n)
               | Some None \<Rightarrow> NaN
               | None \<Rightarrow> (case strDecimalLiteral t of
                            Some (v, []) \<Rightarrow> v
                          | _ \<Rightarrow> NaN)))"

text \<open>\<open>BigInt(s)\<close> on a string (ECMAScript \<open>StringToBigInt\<close>): an optionally signed
  run of decimal digits, or a non-decimal integer literal; anything else (a fraction,
  an exponent, \<open>Infinity\<close>) is a \<open>SyntaxError\<close>.\<close>

definition toBigInt :: "string \<Rightarrow> js_error + int" where
  "toBigInt s =
     (let t = trim s
      in if t = [] then Inr 0
         else (case nonDecimal t of
                 Some (Some n) \<Rightarrow> Inr (int n)
               | Some None \<Rightarrow> Inl SyntaxError
               | None \<Rightarrow>
                   (case t of
                      [] \<Rightarrow> Inl SyntaxError
                    | c # u \<Rightarrow>
                        if c = CHR ''-'' then
                          (if allDigits u then Inr (- int (natOfDigits 10 u)) else Inl SyntaxError)
                        else if c = CHR ''+'' then
                          (if allDigits u then Inr (int (natOfDigits 10 u)) else Inl SyntaxError)
                        else (if allDigits t then Inr (int (natOfDigits 10 t)) else Inl SyntaxError))))"

text \<open>\<open>x > Number.MAX_SAFE_INTEGER || x < Number.MIN_SAFE_INTEGER\<close> for the double
  \<open>x\<close> nearest to a rational \<open>r\<close>. The safe bound \<open>2^53 - 1\<close> and its successor
  \<open>2^53\<close> are both doubles and neighbours, rounding is monotone, and the midpoint
  \<open>2^53 - 1/2\<close> rounds to the even neighbour \<open>2^53\<close>; so the double exceeds the bound
  exactly when \<open>r \<ge> 2^53 - 1/2\<close>, and symmetrically below.\<close>

definition MAX_SAFE_INTEGER :: int where
  "MAX_SAFE_INTEGER = 2 ^ 53 - 1"

definition outsideSafeRange :: "jsnumber \<Rightarrow> bool" where
  "outsideSafeRange x =
     (case x of
        NaN \<Rightarrow> False
      | PosInfinity \<Rightarrow> True
      | NegInfinity \<Rightarrow> True
      | Num r \<Rightarrow> of_int (2 * MAX_SAFE_INTEGER + 1) \<le> 2 * r \<or> 2 * r \<le> - of_int (2 * MAX_SAFE_INTEGER + 1))"

section \<open>Values and diagnostics of the validation compiler\<close>

text \<open>A \<open>Date\<close> object: a time value in milliseconds, or an invalid date.\<close>

datatype jsdate = DateValue int | InvalidDate

text \<open>What \<open>parseValue\<close> stores in the \<open>value\<close> field of its result.\<close>

datatype jsprim =
    PUndefined | PNull | PBool bool | PNumber jsnumber | PBigInt int | PString string | PDate jsdate

text \<open>The result of \<open>parseValue\<close>: \<open>{ value, type }\<close> or \<open>{ error, type: 'error' }\<close>.\<close>

datatype parsed_value = Parsed (pvalue: jsprim) (ptype: string) | ParseError (perror: string)

text \<open>The value \<open>parseRules\<close> stores for a rule: a boolean, \<open>null\<close>, \<open>undefined\<close>, a
  number, a string, an array of strings (\<open>parseArray\<close>) or an object whose members are
  results of \<open>parseValue\<close> (\<open>parseObject\<close>).\<close>

datatype rule_value =
    RBool bool | RNull | RUndefined | RNumber jsnumber | RString string
  | RArray "string list" | RObject "(string \<times> parsed_value) list"

type_synonym rule_map = "(string \<times> rule_value) list"

text \<open>A Diagnostic \<open>{ line, message }\<close>; the orchestrator also writes \<open>line: null\<close>.\<close>

datatype diagnostic = Diagnostic (line: "nat option") (message: string)

text \<open>The class methods \<open>isValidDate\<close> and \<open>parseDate\<close> delegate to the runtime's
  \<open>Date\<close> parser, whose grammar is implementation-defined; they are parameters of the
  model. \<open>isValidDate\<close> is applied to source strings and to rule values.\<close>

record date_support =
  isValidDate :: "rule_value \<Rightarrow> bool"
  parseDate :: "string \<Rightarrow> jsdate option"

section \<open>SQONValidation.parseValue\<close>

text \<open>The argument is \<open>None\<close> when the caller passes \<open>undefined\<close> (\<open>parseObject\<close> on a
  pair without a colon): the first method call on it throws a \<open>TypeError\<close>.
  \<open>BigInt(value)\<close> throws a \<open>SyntaxError\<close> on a string that is not an integer literal.\<close>

definition parseValue :: "date_support \<Rightarrow> string option \<Rightarrow> js_error + parsed_value" where
  "parseValue D value =
     (case value of
        None \<Rightarrow> Inl TypeError
      | Some v \<Rightarrow>
          if v = [] then Inr (Parsed PUndefined ''undefined'')
          else if startsWith dq v \<and> endsWith dq v then
            (let valueToStore = slice1 v
             in if valueToStore = [] then Inr (Parsed PUndefined ''undefined'')
                else Inr (Parsed (PString valueToStore) ''String''))
          else if startsWith ''<Buffer'' v \<and> endsWith ''>'' v then
            Inr (Parsed (PString v) ''Binary'')
          else if startsWith ''Uint8Array['' v \<and> endsWith '']'' v then
            Inr (Parsed (PString v) ''Uint8Array'')
          else if \<not> isNaN (toNumber v) \<and> \<not> isNaN (parseFloat v) \<and> \<not> startsWith ''0x'' v then
            (let numberValue = parseFloat v
             in if outsideSafeRange numberValue then
                  (case toBigInt v of
                     Inl e \<Rightarrow> Inl e
                   | Inr n \<Rightarrow> Inr (Parsed (PBigInt n) ''Number''))
                else Inr (Parsed (PNumber numberValue) ''Number''))
          else if v = ''TRUE'' then Inr (Parsed (PBool True) ''Boolean'')
          else if v = ''FALSE'' then Inr (Parsed (PBool False) ''Boolean'')
          else if v = ''NULL'' then Inr (Parsed PNull ''Null'')
          else if v = ''undefined'' then Inr (Parsed PUndefined ''undefined'')
          else if isValidDate D (RString v) then
            (case parseDate D v of
               None \<Rightarrow> Inr (ParseError (''Invalid date format: '' @ sq @ v @ sq @ ''.''))
             | Some d \<Rightarrow> Inr (Parsed (PDate d) ''Date''))
          else Inr (ParseError (''Invalid value format: '' @ sq @ v @ sq @ ''.'')))"

section \<open>SQONValidation.parseArray, parseObject, parseRules\<close>

text \<open>The assignment \<open>obj[name] = v\<close> on a plain object: it creates or overwrites the own
  property \<open>name\<close>, except for the name \<open>__proto__\<close>, which is the accessor inherited from
  \<open>Object.prototype\<close>: its setter changes the prototype (or does nothing) and the own
  properties stay as they are.\<close>

definition setOwn :: "string \<Rightarrow> 'v \<Rightarrow> (string \<times> 'v) list \<Rightarrow> (string \<times> 'v) list" where
  "setOwn name v obj = (if name = ''__proto__'' then obj else AList.update name v obj)"

definition parseArray :: "string \<Rightarrow> string list" where
  "parseArray content = map trim (split '','' content)"

text \<open>The \<open>forEach\<close> of \<open>parseObject\<close> over the pairs, with the object built so far.\<close>

fun parseObjectPairs ::
  "date_support \<Rightarrow> string list \<Rightarrow> (string \<times> parsed_value) list
     \<Rightarrow> js_error + (string \<times> parsed_value) list" where
  "parseObjectPairs D [] obj = Inr obj"
| "parseObjectPairs D (pair # pairs) obj =
     (case map trim (split '':'' pair) of
        [] \<Rightarrow> Inl TypeError
      | key # rest \<Rightarrow>
          (let value = (case rest of [] \<Rightarrow> None | v # _ \<Rightarrow> Some v);
               parsedKey = (if startsWith dq key \<and> endsWith dq key then slice1 key else key)
           in case parseValue D value of
                Inl e \<Rightarrow> Inl e
              | Inr pv \<Rightarrow> parseObjectPairs D pairs (setOwn parsedKey pv obj)))"

definition parseObject :: "date_support \<Rightarrow> string \<Rightarrow> js_error + (string \<times> parsed_value) list" where
  "parseObject D content = parseObjectPairs D (map trim (split '','' content)) []"

text \<open>The message of the Diagnostic for a value that matches no form.\<close>

definition invalidFormat :: "string \<Rightarrow> string \<Rightarrow> string" where
  "invalidFormat ruleName rule =
     ''Invalid format for value of '' @ sq @ ruleName @ sq @ '' in '' @ sq @ rule @ sq"

text \<open>The body of the \<open>forEach\<close> of \<open>parseRules\<close> for one clause \<open>rule\<close>, on the
  \<open>rules\<close> object built so far and \<open>this.errors\<close>. A clause without \<open>=\<close> leaves
  \<open>ruleValue\<close> undefined: every comparison and both regular expressions fail on it and
  \<open>ruleValue.startsWith\<close> throws a \<open>TypeError\<close>, in either branch. The two branches
  are written out as the source has them.\<close>

definition parseRule ::
  "date_support \<Rightarrow> nat \<Rightarrow> string \<Rightarrow> rule_map \<times> diagnostic list
     \<Rightarrow> js_error + rule_map \<times> diagnostic list" where
  "parseRule D position rule acc =
     (case acc of (rules, errors) \<Rightarrow>
      (case map trim (split ''='' rule) of
         [] \<Rightarrow> Inl TypeError
       | ruleName # rest \<Rightarrow>
         (case rest of
            [] \<Rightarrow> Inl TypeError
          | ruleValue # _ \<Rightarrow>
              if ruleName = ''default'' then
                (if ruleValue = ''TRUE'' then Inr (setOwn ruleName (RBool True) rules, errors)
                 else if ruleValue = ''FALSE'' then Inr (setOwn ruleName (RBool False) rules, errors)
                 else if ruleValue = ''NULL'' then Inr (setOwn ruleName RNull rules, errors)
                 else if ruleValue = ''undefined'' then Inr (setOwn ruleName RUndefined rules, errors)
                 else if allDigits ruleValue then
                   Inr (setOwn ruleName (RNumber (parseInt10 ruleValue)) rules, errors)
                 else if digitsDotDigits ruleValue then
                   Inr (setOwn ruleName (RNumber (parseFloat ruleValue)) rules, errors)
                 else if startsWith ''['' ruleValue \<and> endsWith '']'' ruleValue then
                   (let arrayContent = trim (slice1 ruleValue)
                    in Inr (setOwn ruleName
                              (RArray (if arrayContent \<noteq> [] then parseArray arrayContent else []))
                              rules, errors))
                 else if startsWith ''{'' ruleValue \<and> endsWith ''}'' ruleValue then
                   (let objectContent = trim (slice1 ruleValue)
                    in case (if objectContent \<noteq> [] then parseObject D objectContent else Inr []) of
                         Inl e \<Rightarrow> Inl e
                       | Inr obj \<Rightarrow> Inr (setOwn ruleName (RObject obj) rules, errors))
                 else if startsWith dq ruleValue \<and> endsWith dq ruleValue then
                   Inr (setOwn ruleName (RString (slice1 ruleValue)) rules, errors)
                 else
                   Inr (rules,
                        errors @ [Diagnostic (Some (position + 1)) (invalidFormat ruleName rule)]))
              else
                (if ruleValue = ''true'' \<or> ruleValue = ''false'' then
                   Inr (setOwn ruleName (RBool (ruleValue = ''true'')) rules, errors)
                 else if ruleValue = ''null'' then Inr (setOwn ruleName RNull rules, errors)
                 else if ruleValue = ''undefined'' then Inr (setOwn ruleName RUndefined rules, errors)
                 else if allDigits ruleValue then
                   Inr (setOwn ruleName (RNumber (parseInt10 ruleValue)) rules, errors)
                 else if digitsDotDigits ruleValue then
                   Inr (setOwn ruleName (RNumber (parseFloat ruleValue)) rules, errors)
                 else if startsWith ''['' ruleValue \<and> endsWith '']'' ruleValue then
                   (let arrayContent = trim (slice1 ruleValue)
                    in Inr (setOwn ruleName
                              (RArray (if arrayContent \<noteq> [] then parseArray arrayContent else []))
                              rules, errors))
                 else if startsWith ''{'' ruleValue \<and> endsWith ''}'' ruleValue then
                   (let objectContent = trim (slice1 ruleValue)
                    in case (if objectContent \<noteq> [] then parseObject D objectContent else Inr []) of
                         Inl e \<Rightarrow> Inl e
                       | Inr obj \<Rightarrow> Inr (setOwn ruleName (RObject obj) rules, errors))
                 else if startsWith dq ruleValue \<and> endsWith dq ruleValue then
                   Inr (setOwn ruleName (RString (slice1 ruleValue)) rules, errors)
                 else
                   Inr (rules,
                        errors @ [Diagnostic (Some (position + 1)) (invalidFormat ruleName rule)])))))"

text \<open>The \<open>forEach\<close> over the clauses; an exception ends it.\<close>

fun parseRuleList ::
  "date_support \<Rightarrow> nat \<Rightarrow> string list \<Rightarrow> rule_map \<times> diagnostic list
     \<Rightarrow> js_error + rule_map \<times> diagnostic list" where
  "parseRuleList D position [] acc = Inr acc"
| "parseRuleList D position (rule # clauses) acc =
     (case parseRule D position rule acc of
        Inl e \<Rightarrow> Inl e
      | Inr acc' \<Rightarrow> parseRuleList D position clauses acc')"

text \<open>\<open>parseRules(rulesStr)\<close>: the rules of one line and the updated \<open>this.errors\<close>.\<close>

definition parseRules ::
  "date_support \<Rightarrow> nat \<Rightarrow> string \<Rightarrow> diagnostic list \<Rightarrow> js_error + rule_map \<times> diagnostic list" where
  "parseRules D position rulesStr errors =
     parseRuleList D position (split '','' rulesStr) ([], errors)"

section \<open>The schema tree and the rule set\<close>

text \<open>A schema node \<open>{ type, properties?, items? }\<close>. The compiler reads \<open>type\<close> as an
  array of type names and indexes both \<open>properties\<close> and \<open>items\<close> by field name
  (\<open>getSchemaType\<close>), so both are objects keyed by field name here.\<close>

datatype schema_node =
  SchemaNode (ntype: "string list")
             (properties: "(string \<times> schema_node) list option")
             (items: "(string \<times> schema_node) list option")

type_synonym schema = "(string \<times> schema_node) list"

text \<open>A node of \<open>this.validations\<close>: an object with an optional \<open>rules\<close> member and
  one member per child field (a field is not itself called \<open>rules\<close>).\<close>

datatype rule_node =
  RuleNode (nrules: "rule_map option") (children: "(string \<times> rule_node) list")

type_synonym rule_set = "(string \<times> rule_node) list"

text \<open>The instance fields of \<open>SQONValidation\<close>.\<close>

record validation_parser =
  lines :: "string list"
  position :: nat
  validations :: rule_set
  errors :: "diagnostic list"
  parsedSchema :: schema
  validationKeywords :: "(string \<times> string list) list"

text \<open>\<open>this.errors.push({ line: this.position + 1, message })\<close>.\<close>

definition pushError ::
  "string \<Rightarrow> 'a validation_parser_scheme \<Rightarrow> 'a validation_parser_scheme" where
  "pushError msg this =
     this\<lparr>errors := errors this @ [Diagnostic (Some (position this + 1)) msg]\<rparr>"

text \<open>\<open>xs.join(sep)\<close> on an array of strings.\<close>

fun join :: "string \<Rightarrow> string list \<Rightarrow> string" where
  "join sep [] = []"
| "join sep [x] = x"
| "join sep (x # y # ys) = x @ sep @ join sep (y # ys)"

text \<open>Every JavaScript array is truthy, the empty one too; so is every object.\<close>

definition truthyArray :: "'a list \<Rightarrow> bool" where
  "truthyArray xs = True"

definition truthyObject :: "('k \<times> 'v) list \<Rightarrow> bool" where
  "truthyObject obj = True"

section \<open>SQONValidation.getSchemaType\<close>

text \<open>Where \<open>processPart\<close> goes from a node that is not the last part of the path:
  into \<open>properties\<close> when the type array includes \<open>Object\<close> and the node has
  properties, else into \<open>items\<close> when it includes \<open>ObjectArray\<close> and the node has
  items, else nowhere.\<close>

definition descend :: "schema_node \<Rightarrow> (string \<times> schema_node) list option" where
  "descend node =
     (if ''Object'' \<in> set (ntype node) \<and> properties node \<noteq> None then properties node
      else if ''ObjectArray'' \<in> set (ntype node) \<and> items node \<noteq> None then items node
      else None)"

text \<open>The inner function \<open>processPart(current, parts, index)\<close>; the list argument is
  \<open>parts\<close> from \<open>index\<close> on (\<open>split\<close> on a dot never returns an empty array, so the
  first equation is not reached from \<open>getSchemaType\<close>). Every result is an array: an
  unresolved path gives the empty array.\<close>

fun processPart :: "schema \<Rightarrow> string list \<Rightarrow> string list" where
  "processPart current [] = []"
| "processPart current [part] =
     (case map_of current part of
        Some node \<Rightarrow> ntype node
      | None \<Rightarrow> [])"
| "processPart current (part # rest) =
     (case map_of current part of
        Some node \<Rightarrow>
          (case descend node of
             Some inner \<Rightarrow> processPart inner rest
           | None \<Rightarrow> [])
      | None \<Rightarrow> [])"

definition getSchemaType :: "'a validation_parser_scheme \<Rightarrow> string \<Rightarrow> string list" where
  "getSchemaType this key = processPart (parsedSchema this) (split ''.'' key)"

section \<open>SQONValidation.validateRulesAgainstSchema\<close>

text \<open>\<open>parts[parts.length - 2]\<close> and \<open>parts[parts.length - 1]\<close> used as property
  names: an absent element is \<open>undefined\<close>, which names the property \<open>undefined\<close>.\<close>

definition partBeforeLast :: "string list \<Rightarrow> string" where
  "partBeforeLast parts =
     (if 2 \<le> length parts then parts ! (length parts - 2) else ''undefined'')"

definition lastPart :: "string list \<Rightarrow> string" where
  "lastPart parts = (if 1 \<le> length parts then parts ! (length parts - 1) else ''undefined'')"

text \<open>The \<open>typeof\<close> tests on a rule value. \<open>typeof null\<close> is \<open>'object'\<close>.\<close>

definition typeofRule :: "rule_value \<Rightarrow> string" where
  "typeofRule v =
     (case v of
        RBool b \<Rightarrow> ''boolean''
      | RNull \<Rightarrow> ''object''
      | RUndefined \<Rightarrow> ''undefined''
      | RNumber n \<Rightarrow> ''number''
      | RString s \<Rightarrow> ''string''
      | RArray xs \<Rightarrow> ''object''
      | RObject obj \<Rightarrow> ''object'')"

definition isArrayRule :: "rule_value \<Rightarrow> bool" where
  "isArrayRule v = (case v of RArray xs \<Rightarrow> True | _ \<Rightarrow> False)"

text \<open>The callback of \<open>schemaTypeArray.some\<close> that decides \<open>isValueTypeValid\<close>.\<close>

definition valueFitsType :: "date_support \<Rightarrow> rule_value \<Rightarrow> string \<Rightarrow> bool" where
  "valueFitsType D ruleValue type =
     (if type = ''String'' \<and> typeofRule ruleValue = ''string'' then True
      else if (type = ''Number'' \<or> type = ''NumberArray'') \<and> typeofRule ruleValue = ''number'' then True
      else if type = ''Boolean'' \<and> typeofRule ruleValue = ''boolean'' then True
      else if (type = ''Array'' \<or> type = ''ObjectArray'' \<or> type = ''AnyArray'') \<and> isArrayRule ruleValue
        then True
      else if type = ''Object'' \<and> typeofRule ruleValue = ''object'' \<and> \<not> isArrayRule ruleValue then True
      else if type = ''Date'' \<and> isValidDate D ruleValue then True
      else False)"

definition validateObjectArrayItems ::
  "string \<Rightarrow> rule_map \<Rightarrow> 'a validation_parser_scheme \<Rightarrow> 'a validation_parser_scheme" where
  "validateObjectArrayItems key rules this =
     (let parts = split ''.'' key; arrayKey = partBeforeLast parts
      in case map_of (parsedSchema this) arrayKey of
           None \<Rightarrow> this
         | Some node \<Rightarrow>
             (case items node of
                None \<Rightarrow> this
              | Some schemaItem \<Rightarrow>
                  foldl (\<lambda>t ruleName.
                           case map_of (validationKeywords t) ruleName of
                             None \<Rightarrow> t
                           | Some validTypes \<Rightarrow>
                               if ''Object'' \<notin> set validTypes then
                                 pushError (''Validation '' @ sq @ ruleName @ sq
                                    @ '' is not applicable to type '' @ sq @ ''ObjectArray'' @ sq
                                    @ '' items for key '' @ sq @ key @ sq) t
                               else t)
                        this (map fst rules)))"

definition validateObjectProperties ::
  "string \<Rightarrow> rule_map \<Rightarrow> 'a validation_parser_scheme \<Rightarrow> 'a validation_parser_scheme" where
  "validateObjectProperties key rules this =
     (let parts = split ''.'' key; objectKey = partBeforeLast parts
      in case map_of (parsedSchema this) objectKey of
           None \<Rightarrow> this
         | Some node \<Rightarrow>
             (case properties node of
                None \<Rightarrow> this
              | Some schemaProperties \<Rightarrow>
                  foldl (\<lambda>t ruleName.
                           case map_of (validationKeywords t) ruleName of
                             None \<Rightarrow> t
                           | Some validTypes \<Rightarrow>
                               (case map_of schemaProperties (lastPart parts) of
                                  None \<Rightarrow> t
                                | Some propSchema \<Rightarrow>
                                    if \<not> list_ex (\<lambda>type. type \<in> set validTypes \<or> ''Any'' \<in> set validTypes)
                                             (ntype propSchema)
                                    then
                                      pushError (''Validation '' @ sq @ ruleName @ sq
                                         @ '' is not applicable to property '' @ sq @ lastPart parts @ sq
                                         @ '' of Object for key '' @ sq @ key @ sq) t
                                    else t))
                        this (map fst rules)))"

text \<open>The callback of \<open>Object.keys(rules).forEach\<close> for one rule name.\<close>

definition checkRule ::
  "date_support \<Rightarrow> string \<Rightarrow> rule_map \<Rightarrow> string list \<Rightarrow> 'a validation_parser_scheme \<Rightarrow> string
     \<Rightarrow> 'a validation_parser_scheme" where
  "checkRule D key rules schemaTypeArray this ruleName =
     (case map_of (validationKeywords this) ruleName of
        None \<Rightarrow> pushError (''Validation rule '' @ sq @ ruleName @ sq @ '' is not defined.'') this
      | Some validTypes \<Rightarrow>
          (let ruleValue = (case map_of rules ruleName of Some v \<Rightarrow> v | None \<Rightarrow> RUndefined);
               isApplicable = (''Any'' \<in> set validTypes
                                 \<or> list_ex (\<lambda>type. type \<in> set validTypes) schemaTypeArray);
               this1 = (if \<not> isApplicable then
                          pushError (''Validation '' @ sq @ ruleName @ sq
                             @ '' is not applicable to types for key '' @ sq @ key @ sq) this
                        else this);
               this2 = (if ruleName = ''default'' \<or> ruleName = ''isEqualTo'' then
                          (if \<not> list_ex (valueFitsType D ruleValue) schemaTypeArray then
                             pushError (''Invalid value type for '' @ sq @ ruleName @ sq @ '' in ''
                                @ sq @ key @ sq @ ''. Expected one of: ''
                                @ join '', '' schemaTypeArray) this1
                           else this1)
                        else this1)
           in if ''ObjectArray'' \<in> set schemaTypeArray then validateObjectArrayItems key rules this2
              else if ''Object'' \<in> set schemaTypeArray then validateObjectProperties key rules this2
              else this2))"

text \<open>\<open>getSchemaType\<close> always returns an array, so the guard \<open>!schemaTypeArray\<close> tests
  the truthiness of an array.\<close>

definition validateRulesAgainstSchema ::
  "date_support \<Rightarrow> string \<Rightarrow> rule_map \<Rightarrow> 'a validation_parser_scheme
     \<Rightarrow> 'a validation_parser_scheme" where
  "validateRulesAgainstSchema D key rules this =
     (let schemaTypeArray = getSchemaType this key
      in if \<not> truthyArray schemaTypeArray then
           pushError (''Schema type not found for '' @ sq @ key @ sq) this
         else foldl (checkRule D key rules schemaTypeArray) this (map fst rules))"

section \<open>SQONValidation.addValidation, processValidationLine, parseValidation\<close>

text \<open>The object spread \<open>{ ...a, ...b }\<close>.\<close>

definition spread :: "('k \<times> 'v) list \<Rightarrow> ('k \<times> 'v) list \<Rightarrow> ('k \<times> 'v) list" where
  "spread a b = foldl (\<lambda>m kv. AList.update (fst kv) (snd kv) m) a b"

text \<open>The loop of \<open>addValidation\<close> over \<open>parts\<close>, on the object \<open>current\<close>.\<close>

fun addAt :: "string list \<Rightarrow> rule_map \<Rightarrow> rule_set \<Rightarrow> rule_set" where
  "addAt [] rs current = current"
| "addAt [part] rs current =
     (case map_of current part of
        None \<Rightarrow> AList.update part (RuleNode (Some (spread [] rs)) []) current
      | Some node \<Rightarrow>
          AList.update part
            (RuleNode (Some (spread (case nrules node of None \<Rightarrow> [] | Some old \<Rightarrow> old) rs))
                      (children node))
            current)"
| "addAt (part # rest) rs current =
     (case map_of current part of
        None \<Rightarrow> AList.update part (RuleNode None (addAt rest rs [])) current
      | Some node \<Rightarrow>
          AList.update part (RuleNode (nrules node) (addAt rest rs (children node))) current)"

definition addValidation ::
  "string \<Rightarrow> rule_map \<Rightarrow> 'a validation_parser_scheme \<Rightarrow> 'a validation_parser_scheme" where
  "addValidation key rs this = this\<lparr>validations := addAt (split ''.'' key) rs (validations this)\<rparr>"

text \<open>\<open>const [key, rulesStr] = line.split("->").map(s => s.trim())\<close>; \<open>rulesStr\<close> is
  defined because the line contains the arrow.\<close>

definition processValidationLine ::
  "date_support \<Rightarrow> string \<Rightarrow> 'a validation_parser_scheme
     \<Rightarrow> js_error + 'a validation_parser_scheme" where
  "processValidationLine D lineText this =
     (if \<not> includesStr ''->'' lineText then Inr (pushError (''Invalid format: '' @ lineText) this)
      else
        (case map trim (split ''->'' lineText) of
           key # rulesStr # _ \<Rightarrow>
             (case parseRules D (position this) rulesStr (errors this) of
                Inl e \<Rightarrow> Inl e
              | Inr (rs, errs) \<Rightarrow>
                  (let this1 = validateRulesAgainstSchema D key rs (this\<lparr>errors := errs\<rparr>)
                   in if \<not> list_ex (\<lambda>err. line err = Some (position this1 + 1)) (errors this1)
                      then Inr (addValidation key rs this1)
                      else Inr this1))
         | _ \<Rightarrow> Inl TypeError))"

text \<open>One iteration of the \<open>while\<close> loop of \<open>parseValidation\<close> on a line that is
  neither \<open>@end\<close> nor a comment, before \<open>this.position++\<close>.\<close>

definition validationStep ::
  "date_support \<Rightarrow> string \<Rightarrow> 'a validation_parser_scheme
     \<Rightarrow> js_error + 'a validation_parser_scheme" where
  "validationStep D lineText this =
     (if includesStr ''->'' lineText then processValidationLine D lineText this
      else if lineText \<noteq> [] then
        Inr (pushError (''Invalid validation line: '' @ dq @ lineText @ dq) this)
      else Inr this)"

text \<open>The compiler steps never move the cursor: they leave \<open>lines\<close>, \<open>position\<close>,
  the schema and the keyword table as they are. This is what makes the \<open>while\<close> loop
  of \<open>parseValidation\<close> terminate.\<close>

definition cursor ::
  "'a validation_parser_scheme
     \<Rightarrow> string list \<times> nat \<times> schema \<times> (string \<times> string list) list" where
  "cursor this = (lines this, position this, parsedSchema this, validationKeywords this)"

lemma foldl_frame:
  assumes "\<And>t x. g (f t x) = g t"
  shows "g (foldl f t xs) = g t"
  by (induction xs arbitrary: t) (simp_all add: assms)

lemma cursor_pushError [simp]: "cursor (pushError msg this) = cursor this"
  by (simp add: cursor_def pushError_def)

lemma cursor_errors_update [simp]: "cursor (this\<lparr>errors := es\<rparr>) = cursor this"
  by (simp add: cursor_def)

lemma cursor_validateObjectArrayItems [simp]:
  "cursor (validateObjectArrayItems key rules this) = cursor this"
  unfolding validateObjectArrayItems_def Let_def
  by (auto split: option.splits intro!: foldl_frame)

lemma cursor_validateObjectProperties [simp]:
  "cursor (validateObjectProperties key rules this) = cursor this"
  unfolding validateObjectProperties_def Let_def
  by (auto split: option.splits intro!: foldl_frame)

lemma cursor_checkRule [simp]:
  "cursor (checkRule D key rules tys this ruleName) = cursor this"
  unfolding checkRule_def Let_def
  by (auto split: option.splits)

lemma cursor_validateRulesAgainstSchema [simp]:
  "cursor (validateRulesAgainstSchema D key rules this) = cursor this"
  unfolding validateRulesAgainstSchema_def Let_def
  by (auto intro!: foldl_frame)

lemma cursor_addValidation [simp]: "cursor (addValidation key rules this) = cursor this"
  by (simp add: cursor_def addValidation_def)

lemma cursor_processValidationLine:
  "processValidationLine D lineText this = Inr this' \<Longrightarrow> cursor this' = cursor this"
  unfolding processValidationLine_def Let_def
  by (auto split: if_splits list.splits sum.splits)

lemma cursor_validationStep:
  "validationStep D lineText this = Inr this' \<Longrightarrow> cursor this' = cursor this"
  unfolding validationStep_def
  by (auto split: if_splits dest: cursor_processValidationLine)

text \<open>\<open>parseValidation()\<close>: the \<open>while\<close> loop over the lines from \<open>this.position\<close>. It
  stops at \<open>@end\<close> without consuming it, skips comment lines, and returns the instance,
  whose fields \<open>validations\<close>, \<open>errors\<close>, \<open>lines\<close>, \<open>position\<close> are the result object.\<close>

function parseValidation ::
  "date_support \<Rightarrow> 'a validation_parser_scheme \<Rightarrow> js_error + 'a validation_parser_scheme" where
  "parseValidation D this =
     (if position this < length (lines this) then
        (let lineText = trim (lines this ! position this)
         in if lineText = ''@end'' then Inr this
            else if startsWith ''!#'' lineText then
              parseValidation D (this\<lparr>position := position this + 1\<rparr>)
            else (case validationStep D lineText this of
                    Inl e \<Rightarrow> Inl e
                  | Inr this' \<Rightarrow> parseValidation D (this'\<lparr>position := position this' + 1\<rparr>)))
      else Inr this)"
  by pat_completeness auto
termination
proof (relation "measure (\<lambda>(D, this). length (lines this) - position this)")
  show "wf (measure (\<lambda>(D, this). length (lines this) - position this))" by simp
next
  fix D :: date_support and this :: "'a validation_parser_scheme" and x
  assume "position this < length (lines this)"
  then show "((D, this\<lparr>position := position this + 1\<rparr>), D, this)
        \<in> measure (\<lambda>(D, this). length (lines this) - position this)" by simp
next
  fix D :: date_support and this :: "'a validation_parser_scheme" and x x2
  assume a: "position this < length (lines this)"
    and c: "validationStep D x this = Inr x2"
  from cursor_validationStep[OF c] have "lines x2 = lines this" "position x2 = position this"
    by (simp_all add: cursor_def)
  with a show "((D, x2\<lparr>position := position x2 + 1\<rparr>), D, this)
        \<in> measure (\<lambda>(D, this). length (lines this) - position this)" by simp
qed

declare parseValidation.simps [simp del]

text \<open>The constructor of \<open>SQONValidation\<close>.\<close>

definition newSQONValidation ::
  "string list \<Rightarrow> nat \<Rightarrow> schema \<Rightarrow> (string \<times> string list) list \<Rightarrow> validation_parser" where
  "newSQONValidation ls pos sch kw =
     \<lparr> lines = ls, position = pos, validations = [], errors = [], parsedSchema = sch,
       validationKeywords = kw \<rparr>"

section \<open>The orchestrator SQON\<close>

text \<open>The caller's \<open>section\<close> option: absent, or one of the three section names.\<close>

datatype section_mode = OnlySchema | OnlyValidations | OnlyRecords

text \<open>The instance fields of \<open>SQON\<close> that the parse reads or writes. It has the fields of
  the validation compiler (\<open>lines\<close>, \<open>position\<close>, \<open>validations\<close>, \<open>errors\<close>,
  \<open>parsedSchema\<close>, \<open>validationKeywords\<close>) and four more; \<open>onlySection\<close> is the field
  \<open>section\<close>, \<open>fileRules\<close> is \<open>fileRules.Strict\<close>. The element type of \<open>records\<close>
  belongs to the record compiler and is left open.\<close>

record 'r sqon = validation_parser +
  onlySection :: "section_mode option"
  records :: "'r list"
  sectionOrder :: "string list"
  fileRules :: bool

definition MAX_ERRORS :: nat where
  "MAX_ERRORS = 50"

definition allowedTypes :: "string list" where
  "allowedTypes =
     [''Number'', ''String'', ''Binary'', ''Date'', ''Boolean'', ''Uint8Array'', ''Binary'',
      ''Object'', ''Any[]'', ''StringArray'', ''String[]'', ''ObjectArray'', ''NumberArray'',
      ''Number[]'', ''Number[]'', ''String[]'', ''Object[]'', ''Null'', ''undefined'', ''Array'',
      ''[]'', ''Any'', ''AnyArray'']"

text \<open>The table \<open>this.validationKeywords\<close> of the \<open>SQON\<close> constructor.\<close>

definition validationKeywordsTable :: "(string \<times> string list) list" where
  "validationKeywordsTable =
     [(''minLength'', [''String'', ''StringArray'', ''String[]'', ''ObjectArray'', ''Object[]'',
                       ''Array'', ''Any[]'', ''[]'', ''Object'', ''NumberArray'', ''Number[]'',
                       ''Uint8Array'']),
      (''maxLength'', [''String'', ''StringArray'', ''String[]'', ''ObjectArray'', ''Object[]'',
                       ''Array'', ''Any[]'', ''[]'', ''Object'', ''NumberArray'', ''Number[]'',
                       ''Uint8Array'']),
      (''isDate'', [''Date'', ''StringArray'', ''String[]'', ''NumberArray'', ''Number[]'']),
      (''minDate'', [''Date'', ''StringArray'', ''String[]'', ''NumberArray'', ''Number[]'']),
      (''maxDate'', [''Date'', ''StringArray'', ''String[]'', ''NumberArray'', ''Number[]'']),
      (''isBoolean'', [''Boolean'', ''Array'', ''Any[]'', ''[]'']),
      (''hasProperties'', [''Object'', ''ObjectArray'', ''Object[]'']),
      (''enum'', [''Any'']),
      (''notNull'', [''Any'']),
      (''pattern'', [''Any'']),
      (''isUnique'', [''Any'']),
      (''required'', [''Any'']),
      (''isNull'', [''Any'']),
      (''min'', [''Number'', ''NumberArray'', ''Number[]'', ''Uint8Array'']),
      (''max'', [''Number'', ''NumberArray'', ''Number[]'', ''Uint8Array'']),
      (''isPositive'', [''Number'', ''NumberArray'', ''Number[]'', ''Uint8Array'']),
      (''isNegative'', [''Number'', ''NumberArray'', ''Number[]'', ''Uint8Array'']),
      (''isNumeric'', [''NumberArray'', ''Number[]'', ''Number'']),
      (''isInteger'', [''Number'', ''NumberArray'', ''Number[]'']),
      (''isFloat'', [''Number'', ''NumberArray'', ''Number[]'']),
      (''isEmail'', [''String'', ''StringArray'', ''String[]'']),
      (''isURL'', [''String'', ''String[]'', ''StringArray'']),
      (''isAlpha'', [''String'', ''String[]'', ''StringArray'']),
      (''isAlphanumeric'', [''String'', ''String[]'', ''StringArray'']),
      (''isIP'', [''String'', ''String[]'', ''StringArray'']),
      (''trim'', [''String'', ''String[]'', ''StringArray'']),
      (''lowercase'', [''String'', ''String[]'', ''StringArray'']),
      (''uppercase'', [''String'', ''String[]'', ''StringArray''])]"

text \<open>The state the constructor leaves, with \<open>this.lines\<close> already read.\<close>

definition newSQON :: "section_mode option \<Rightarrow> string list \<Rightarrow> 'r sqon" where
  "newSQON sec ls =
     \<lparr> lines = ls, position = 0, validations = [], errors = [], parsedSchema = [],
       validationKeywords = validationKeywordsTable,
       onlySection = sec, records = [], sectionOrder = [], fileRules = False \<rparr>"

text \<open>The schema compiler \<open>SQONSchema\<close> and the record compiler \<open>SQONRecords\<close> are not
  among the sources; the orchestrator is modelled for any pair of them.
  \<open>schemaParser allowedTypes lines position\<close> stands for
  \<open>new SQONSchema({ lines, position, allowedTypes }).parseSchema()\<close> and returns
  \<open>(parsedSchema, errors, lines, position)\<close>;
  \<open>recordParser lines position limit\<close> stands for
  \<open>new SQONRecords(lines, position).parseRecords(limit)\<close> and returns
  \<open>(errors, records, position)\<close>. Either may throw.\<close>

record 'r section_parsers =
  schemaParser ::
    "string list \<Rightarrow> string list \<Rightarrow> nat \<Rightarrow> js_error + schema \<times> diagnostic list \<times> string list \<times> nat"
  recordParser ::
    "string list \<Rightarrow> nat \<Rightarrow> nat \<Rightarrow> js_error + diagnostic list \<times> 'r list \<times> nat"

definition SQON_parseSchema :: "'r section_parsers \<Rightarrow> 'r sqon \<Rightarrow> js_error + 'r sqon" where
  "SQON_parseSchema P this =
     (case schemaParser P allowedTypes (lines this) (position this) of
        Inl e \<Rightarrow> Inl e
      | Inr (schema', errs, ls, pos) \<Rightarrow>
          Inr (this\<lparr>parsedSchema := schema',
                    errors := errors this @ take MAX_ERRORS errs,
                    lines := ls,
                    position := pos\<rparr>))"

definition SQON_parseValidation :: "date_support \<Rightarrow> 'r sqon \<Rightarrow> js_error + 'r sqon" where
  "SQON_parseValidation D this =
     (case parseValidation D
             (newSQONValidation (lines this) (position this) (parsedSchema this)
                (validationKeywords this)) of
        Inl e \<Rightarrow> Inl e
      | Inr results \<Rightarrow>
          Inr (this\<lparr>validations := validations results,
                    errors := errors this @ take MAX_ERRORS (errors results),
                    lines := lines results,
                    position := position results\<rparr>))"

definition SQON_parseRecords :: "'r section_parsers \<Rightarrow> 'r sqon \<Rightarrow> js_error + 'r sqon" where
  "SQON_parseRecords P this =
     (case recordParser P (lines this) (position this) 500 of
        Inl e \<Rightarrow> Inl e
      | Inr (errs, recs, pos) \<Rightarrow>
          Inr (this\<lparr>errors := errors this @ take MAX_ERRORS errs,
                    records := recs,
                    position := pos\<rparr>))"

definition checkSectionOrder :: "string \<Rightarrow> 'r sqon \<Rightarrow> 'r sqon" where
  "checkSectionOrder sec this =
     (if sec = ''@schema'' then
        (let t1 = (if ''@schema'' \<in> set (sectionOrder this)
                   then pushError (sq @ ''@schema'' @ sq @ '' is already opened but not closed.'') this
                   else this)
         in t1\<lparr>sectionOrder := sectionOrder t1 @ [sec]\<rparr>)
      else if sec = ''@validations'' then
        (let t1 = (if ''@schema'' \<notin> set (sectionOrder this)
                   then pushError (sq @ ''@validations'' @ sq @ '' must come after '' @ sq @ ''@schema'' @ sq @ ''.'') this
                   else this);
             t2 = (if ''@validations'' \<in> set (sectionOrder t1)
                   then pushError (sq @ ''@validations'' @ sq @ '' is already opened but not closed.'') t1
                   else t1)
         in t2\<lparr>sectionOrder := sectionOrder t2 @ [sec]\<rparr>)
      else if sec = ''@records'' then
        (let t1 = (if ''@schema'' \<notin> set (sectionOrder this)
                   then pushError (sq @ ''@records'' @ sq @ '' must come after '' @ sq @ ''@schema'' @ sq @ ''.'') this
                   else this);
             t2 = (if ''@validations'' \<in> set (sectionOrder t1) \<and> ''@validations'' \<notin> set (sectionOrder t1)
                   then pushError (sq @ ''@records'' @ sq @ '' must come after '' @ sq @ ''@validations'' @ sq @ ''.'') t1
                   else t1);
             t3 = (if ''@records'' \<in> set (sectionOrder t2)
                   then pushError (sq @ ''@records'' @ sq @ '' is already opened but not closed.'') t2
                   else t2)
         in t3\<lparr>sectionOrder := sectionOrder t3 @ [sec]\<rparr>)
      else this)"

text \<open>The result object \<open>{ fileRules, schema, validations, records, errors }\<close>.\<close>

datatype 'r parsed_result =
  ParsedResult (res_fileRules: bool) (res_schema: schema) (res_validations: rule_set)
               (res_records: "'r list") (res_errors: "diagnostic list")

text \<open>What one iteration of the \<open>while\<close> loop of \<open>parseLines\<close> does: it throws, it
  returns from \<open>parseLines\<close>, or it goes on with a new state.\<close>

datatype 'r step = Throw js_error | Return "'r parsed_result" | Next "'r sqon"

definition toUpperCase :: "string \<Rightarrow> string" where
  "toUpperCase s =
     map (\<lambda>c. if c \<in> set ''abcdefghijklmnopqrstuvwxyz'' then char_of (of_char c - (32::nat)) else c) s"

text \<open>\<open>this.position++\<close> at the end of an iteration (or before \<open>continue\<close>).\<close>

definition advance :: "'r sqon \<Rightarrow> 'r sqon" where
  "advance this = this\<lparr>position := position this + 1\<rparr>"

definition parseLinesStep :: "date_support \<Rightarrow> 'r section_parsers \<Rightarrow> 'r sqon \<Rightarrow> 'r step" where
  "parseLinesStep D P this =
     (let lineText = lines this ! position this
      in if startsWith ''*STRICT='' lineText then
           (let strictValue = (case split ''='' lineText of
                                 a # v # _ \<Rightarrow> toUpperCase (trim v)
                               | _ \<Rightarrow> ''undefined'')
            in if strictValue = ''TRUE'' then
                 (if onlySection this \<noteq> None
                  then Throw (Error ''Strict-Mode is enabled, please turn it off.'')
                  else Next (advance (this\<lparr>fileRules := True\<rparr>)))
               else if strictValue = ''FALSE'' then Next (advance (this\<lparr>fileRules := False\<rparr>))
               else Next (advance (pushError (''Invalid *STRICT value: '' @ strictValue
                                                @ ''. Expected TRUE or FALSE.'') this)))
         else if lineText = ''@schema'' then
           (if onlySection this = Some OnlySchema then
              (case SQON_parseSchema P (advance this) of
                 Inl e \<Rightarrow> Throw e
               | Inr t \<Rightarrow> Return (ParsedResult (fileRules t) (parsedSchema t) [] [] (errors t)))
            else if onlySection this = None then
              (case SQON_parseSchema P (advance (checkSectionOrder ''@schema'' this)) of
                 Inl e \<Rightarrow> Throw e
               | Inr t \<Rightarrow> Next (advance t))
            else Next (advance this))
         else if lineText = ''@validations'' then
           (if onlySection this = Some OnlySchema then
              (case SQON_parseValidation D (advance this) of
                 Inl e \<Rightarrow> Throw e
               | Inr t \<Rightarrow> Return (ParsedResult (fileRules t) [] (validations t) [] (errors t)))
            else if onlySection this = None then
              (case SQON_parseValidation D (advance (checkSectionOrder ''@validations'' this)) of
                 Inl e \<Rightarrow> Throw e
               | Inr t \<Rightarrow> Next (advance t))
            else Next (advance this))
         else if lineText = ''@records'' then
           (if onlySection this = Some OnlyRecords then
              (case SQON_parseRecords P (advance this) of
                 Inl e \<Rightarrow> Throw e
               | Inr t \<Rightarrow> Return (ParsedResult (fileRules t) [] [] (records t) (errors t)))
            else if onlySection this = None then
              (case SQON_parseRecords P (advance (checkSectionOrder ''@records'' this)) of
                 Inl e \<Rightarrow> Throw e
               | Inr t \<Rightarrow> Next (advance t))
            else Next (advance this))
         else if lineText = ''@end'' then
           (if onlySection this = None then
              (if sectionOrder this = [] then
                 Next (advance (pushError (''Unexpected '' @ sq @ ''@end'' @ sq
                                             @ '' without an open section.'') this))
               else
                 (let lastSection = last (sectionOrder this);
                      t1 = this\<lparr>sectionOrder := butlast (sectionOrder this)\<rparr>
                  in if lastSection \<noteq> ''@schema'' \<and> lastSection \<noteq> ''@validations''
                        \<and> lastSection \<noteq> ''@records''
                     then Next (advance (pushError (''Unexpected '' @ sq @ ''@end'' @ sq
                                                      @ '' for section: '' @ lastSection @ ''.'') t1))
                     else Next (advance t1)))
            else Next (advance this))
         else
           (if onlySection this \<noteq> None \<and> onlySection this \<noteq> Some OnlyRecords
               \<and> onlySection this \<noteq> Some OnlySchema
            then Throw (Error ''Invalid section parsing!'')
            else if onlySection this = None then
              Next (advance (pushError (''Unknown section or command: '' @ dq @ lineText @ dq) this))
            else Next (advance this)))"

text \<open>The code after the loop.\<close>

definition parseLinesEnd :: "'r sqon \<Rightarrow> 'r parsed_result" where
  "parseLinesEnd this =
     (let t2 =
        (if onlySection this = None then
           (let t1 = (if \<not> truthyObject (parsedSchema this)
                      then this\<lparr>errors := errors this
                             @ [Diagnostic None (''Missing required section: '' @ sq @ ''@schema'' @ sq)]\<rparr>
                      else this)
            in if length (records t1) = 0
               then t1\<lparr>errors := errors t1
                      @ [Diagnostic None (''Missing required section: '' @ sq @ ''@records'' @ sq)]\<rparr>
               else t1)
         else this)
      in ParsedResult (fileRules t2) (parsedSchema t2) (validations t2) (records t2) (errors t2))"

text \<open>\<open>parseLines()\<close>. The absent compilers may hand back any position, so the loop need
  not end: \<open>None\<close> is the run that never returns, \<open>Some (Inl e)\<close> a thrown exception,
  \<open>Some (Inr r)\<close> the returned result.\<close>

partial_function (option) parseLines ::
  "date_support \<Rightarrow> 'r section_parsers \<Rightarrow> 'r sqon \<Rightarrow> (js_error + 'r parsed_result) option" where
  "parseLines D P this =
     (if position this < length (lines this) then
        (case parseLinesStep D P this of
           Throw e \<Rightarrow> Some (Inl e)
         | Return r \<Rightarrow> Some (Inr r)
         | Next t \<Rightarrow> parseLines D P t)
      else Some (Inr (parseLinesEnd this)))"

text \<open>\<open>new SQON({ section, fileContent }).parse()\<close>, without a \<open>filePath\<close>: the
  constructor throws when \<open>fileContent\<close> is the empty string; otherwise \<open>parse()\<close> reads
  \<open>fileContent.split(/\r?\n/).map(line => line.trim()).filter(line => line.length > 0)\<close>
  and calls \<open>parseLines()\<close>. (The metadata \<open>parse()\<close> adds is not modelled.)\<close>

definition dropCR :: "string \<Rightarrow> string" where
  "dropCR s = (if endsWith [CHR 0x0D] s then butlast s else s)"

definition splitLines :: "string \<Rightarrow> string list" where
  "splitLines s =
     (let pieces = split [CHR 0x0A] s in map dropCR (butlast pieces) @ [last pieces])"

definition contentLines :: "string \<Rightarrow> string list" where
  "contentLines fileContent = filter (\<lambda>l. length l > 0) (map trim (splitLines fileContent))"

definition parseContent ::
  "date_support \<Rightarrow> 'r section_parsers \<Rightarrow> section_mode option \<Rightarrow> string
     \<Rightarrow> (js_error + 'r parsed_result) option" where
  "parseContent D P sec fileContent =
     (if fileContent = [] then
        Some (Inl (Error (''Invalid configuration: At least one of '' @ sq @ ''filePath'' @ sq
                            @ '' or '' @ sq @ ''fileContent'' @ sq @ '' must be provided.'')))
      else parseLines D P (newSQON sec (contentLines fileContent)))"

section \<open>Runtime values of the validator\<close>

text \<open>The data handed to \<open>Validator.validate\<close>: any JavaScript value built from
  primitives, arrays, plain objects, dates and byte arrays (\<open>Buffer\<close> is a subclass of
  \<open>Uint8Array\<close>). Distinct occurrences of an array or object in the data are distinct
  references.\<close>

datatype jsval =
    VUndefined | VNull | VBool bool | VNumber jsnumber | VBigInt int | VString string
  | VArray "jsval list" | VObject "(string \<times> jsval) list" | VDate jsdate
  | VBuffer "nat list" | VUint8Array "nat list"

definition typeof :: "jsval \<Rightarrow> string" where
  "typeof v =
     (case v of
        VUndefined \<Rightarrow> ''undefined''
      | VNull \<Rightarrow> ''object''
      | VBool b \<Rightarrow> ''boolean''
      | VNumber n \<Rightarrow> ''number''
      | VBigInt n \<Rightarrow> ''bigint''
      | VString s \<Rightarrow> ''string''
      | VArray xs \<Rightarrow> ''object''
      | VObject kvs \<Rightarrow> ''object''
      | VDate d \<Rightarrow> ''object''
      | VBuffer bs \<Rightarrow> ''object''
      | VUint8Array bs \<Rightarrow> ''object'')"

definition isArray :: "jsval \<Rightarrow> bool" where
  "isArray v = (case v of VArray xs \<Rightarrow> True | _ \<Rightarrow> False)"

definition elements :: "jsval \<Rightarrow> jsval list" where
  "elements v = (case v of VArray xs \<Rightarrow> xs | _ \<Rightarrow> [])"

definition instanceofDate :: "jsval \<Rightarrow> bool" where
  "instanceofDate v = (case v of VDate d \<Rightarrow> True | _ \<Rightarrow> False)"

definition isBuffer :: "jsval \<Rightarrow> bool" where
  "isBuffer v = (case v of VBuffer bs \<Rightarrow> True | _ \<Rightarrow> False)"

definition instanceofUint8Array :: "jsval \<Rightarrow> bool" where
  "instanceofUint8Array v = (case v of VBuffer bs \<Rightarrow> True | VUint8Array bs \<Rightarrow> True | _ \<Rightarrow> False)"

definition bytes :: "jsval \<Rightarrow> nat list" where
  "bytes v = (case v of VBuffer bs \<Rightarrow> bs | VUint8Array bs \<Rightarrow> bs | _ \<Rightarrow> [])"

definition isNullish :: "jsval \<Rightarrow> bool" where
  "isNullish v = (v = VUndefined \<or> v = VNull)"

text \<open>A property name that is an array index: a canonical decimal numeral.\<close>

definition isIndexKey :: "string \<Rightarrow> bool" where
  "isIndexKey k = (k = ''0'' \<or> (allDigits k \<and> take 1 k \<noteq> ''0''))"

text \<open>\<open>v[k]\<close> on a value that is neither \<open>null\<close> nor \<open>undefined\<close>: own properties,
  the elements and \<open>length\<close> of arrays, strings and byte arrays.\<close>

definition getOwn :: "jsval \<Rightarrow> string \<Rightarrow> jsval" where
  "getOwn v k =
     (case v of
        VObject kvs \<Rightarrow> (case map_of kvs k of Some x \<Rightarrow> x | None \<Rightarrow> VUndefined)
      | VArray xs \<Rightarrow>
          if k = ''length'' then VNumber (Num (of_nat (length xs)))
          else if isIndexKey k \<and> natOfDigits 10 k < length xs then xs ! natOfDigits 10 k
          else VUndefined
      | VString s \<Rightarrow>
          if k = ''length'' then VNumber (Num (of_nat (length s)))
          else if isIndexKey k \<and> natOfDigits 10 k < length s then VString [s ! natOfDigits 10 k]
          else VUndefined
      | VBuffer bs \<Rightarrow>
          if k = ''length'' then VNumber (Num (of_nat (length bs)))
          else if isIndexKey k \<and> natOfDigits 10 k < length bs
            then VNumber (Num (of_nat (bs ! natOfDigits 10 k)))
          else VUndefined
      | VUint8Array bs \<Rightarrow>
          if k = ''length'' then VNumber (Num (of_nat (length bs)))
          else if isIndexKey k \<and> natOfDigits 10 k < length bs
            then VNumber (Num (of_nat (bs ! natOfDigits 10 k)))
          else VUndefined
      | _ \<Rightarrow> VUndefined)"

text \<open>\<open>v[k]\<close> and \<open>v.length\<close>: a \<open>TypeError\<close> on \<open>null\<close> and \<open>undefined\<close>.\<close>

definition getProp :: "jsval \<Rightarrow> string \<Rightarrow> js_error + jsval" where
  "getProp v k = (if isNullish v then Inl TypeError else Inr (getOwn v k))"

text \<open>\<open>v?.[k]\<close>.\<close>

definition getOptional :: "jsval \<Rightarrow> string \<Rightarrow> jsval" where
  "getOptional v k = (if isNullish v then VUndefined else getOwn v k)"

text \<open>\<open>k in v\<close> for an object \<open>v\<close>.\<close>

definition hasProperty :: "jsval \<Rightarrow> string \<Rightarrow> bool" where
  "hasProperty v k =
     (case v of
        VObject kvs \<Rightarrow> k \<in> set (map fst kvs)
      | VArray xs \<Rightarrow> k = ''length'' \<or> (isIndexKey k \<and> natOfDigits 10 k < length xs)
      | VBuffer bs \<Rightarrow> k = ''length'' \<or> (isIndexKey k \<and> natOfDigits 10 k < length bs)
      | VUint8Array bs \<Rightarrow> k = ''length'' \<or> (isIndexKey k \<and> natOfDigits 10 k < length bs)
      | _ \<Rightarrow> False)"

text \<open>\<open>SameValueZero\<close>, the equality of \<open>Set\<close> and \<open>Array.prototype.includes\<close>:
  primitives by value (\<open>NaN\<close> equals itself), objects by reference.\<close>

definition sameValueZero :: "jsval \<Rightarrow> jsval \<Rightarrow> bool" where
  "sameValueZero a b =
     (case a of
        VUndefined \<Rightarrow> b = VUndefined
      | VNull \<Rightarrow> b = VNull
      | VBool x \<Rightarrow> b = VBool x
      | VNumber x \<Rightarrow> b = VNumber x
      | VBigInt x \<Rightarrow> b = VBigInt x
      | VString x \<Rightarrow> b = VString x
      | _ \<Rightarrow> False)"

text \<open>\<open>new Set(xs).size\<close>.\<close>

fun setSize :: "jsval list \<Rightarrow> nat" where
  "setSize [] = 0"
| "setSize (x # xs) = (if list_ex (sameValueZero x) xs then setSize xs else Suc (setSize xs))"

text \<open>The decimal numeral of an array position, for \<open>`${field}[${i}]`\<close>.\<close>

fun decimal :: "nat \<Rightarrow> string" where
  "decimal n = (if n < 10 then [char_of (48 + n)] else decimal (n div 10) @ [char_of (48 + n mod 10)])"

declare decimal.simps [simp del]

text \<open>A rule value of the rule set as a runtime value.\<close>

definition primToJs :: "jsprim \<Rightarrow> jsval" where
  "primToJs p =
     (case p of
        PUndefined \<Rightarrow> VUndefined
      | PNull \<Rightarrow> VNull
      | PBool b \<Rightarrow> VBool b
      | PNumber n \<Rightarrow> VNumber n
      | PBigInt n \<Rightarrow> VBigInt n
      | PString s \<Rightarrow> VString s
      | PDate d \<Rightarrow> VDate d)"

definition parsedToJs :: "parsed_value \<Rightarrow> jsval" where
  "parsedToJs pv =
     (case pv of
        Parsed v t \<Rightarrow> VObject [(''value'', primToJs v), (''type'', VString t)]
      | ParseError e \<Rightarrow> VObject [(''error'', VString e), (''type'', VString ''error'')])"

definition ruleToJs :: "rule_value \<Rightarrow> jsval" where
  "ruleToJs rv =
     (case rv of
        RBool b \<Rightarrow> VBool b
      | RNull \<Rightarrow> VNull
      | RUndefined \<Rightarrow> VUndefined
      | RNumber n \<Rightarrow> VNumber n
      | RString s \<Rightarrow> VString s
      | RArray xs \<Rightarrow> VArray (map VString xs)
      | RObject kvs \<Rightarrow> VObject (map (\<lambda>kv. (fst kv, parsedToJs (snd kv))) kvs))"

text \<open>The operations of the language runtime that coerce their operands are parameters
  of the model: \<open>toStr\<close> is \<open>ToString\<close> (template literals, \<open>String.prototype.includes\<close>),
  \<open>lessThan x y\<close> is the relational comparison \<open>x < y\<close> (\<open>None\<close> when an operand is
  \<open>NaN\<close>), \<open>regexpTest p s\<close> is \<open>new RegExp(p).test(s)\<close> (a \<open>SyntaxError\<close> for a
  malformed pattern) and \<open>newDate v\<close> is \<open>new Date(v)\<close>.\<close>

record js_runtime =
  toStr :: "jsval \<Rightarrow> string"
  lessThan :: "jsval \<Rightarrow> jsval \<Rightarrow> bool option"
  regexpTest :: "jsval \<Rightarrow> string \<Rightarrow> js_error + bool"
  newDate :: "jsval \<Rightarrow> jsdate"

text \<open>The four relational operators in terms of \<open>x < y\<close>, as ECMAScript defines them.\<close>

definition lt :: "js_runtime \<Rightarrow> jsval \<Rightarrow> jsval \<Rightarrow> bool" where
  "lt R a b = (lessThan R a b = Some True)"

definition gt :: "js_runtime \<Rightarrow> jsval \<Rightarrow> jsval \<Rightarrow> bool" where
  "gt R a b = (lessThan R b a = Some True)"

definition le :: "js_runtime \<Rightarrow> jsval \<Rightarrow> jsval \<Rightarrow> bool" where
  "le R a b = (lessThan R b a = Some False)"

definition ge :: "js_runtime \<Rightarrow> jsval \<Rightarrow> jsval \<Rightarrow> bool" where
  "ge R a b = (lessThan R a b = Some False)"

section \<open>Validator.validateSchema\<close>

text \<open>A schema definition \<open>{ type, properties?, items? }\<close> as the validator reads it:
  \<open>items\<close> is the definition of the elements.\<close>

datatype schema_def =
  SchemaDef (dtype: "string list")
            (dproperties: "(string \<times> schema_def) list option")
            (ditems: "schema_def option")

text \<open>An entry of \<open>this.errors\<close>: \<open>{ valid: false, field, message }\<close>.\<close>

datatype verror = VError (vfield: string) (vmessage: string)

text \<open>The inner function \<open>validateType\<close>: the first type that decides returns.\<close>

primrec validateType :: "string list \<Rightarrow> jsval \<Rightarrow> bool" where
  "validateType [] value = False"
| "validateType (type # rest) value =
     (if type = ''Any'' then True
      else if type = ''String'' \<and> typeof value = ''string'' then True
      else if type = ''Number'' \<and> typeof value = ''number'' then True
      else if type = ''Boolean'' \<and> typeof value = ''boolean'' then True
      else if type = ''Null'' \<and> value = VNull then True
      else if type = ''undefined'' \<and> value = VUndefined then True
      else if type = ''Date'' \<and> instanceofDate value then True
      else if type = ''Binary'' \<and> isBuffer value then True
      else if type = ''Uint8Array'' \<and> instanceofUint8Array value then True
      else if type = ''StringArray'' \<and> isArray value
              \<and> list_all (\<lambda>v. typeof v = ''string'') (elements value) then True
      else if type = ''NumberArray'' \<and> isArray value
              \<and> list_all (\<lambda>v. typeof v = ''number'') (elements value) then True
      else if type = ''ObjectArray'' \<and> isArray value then True
      else if type = ''Array'' \<or> type = ''Any[]'' \<or> type = ''[]'' then isArray value
      else if type = ''Object'' \<and> typeof value = ''object'' \<and> value \<noteq> VNull \<and> \<not> isArray value
        then True
      else validateType rest value)"

text \<open>The loop over the items of an array field.\<close>

definition checkItems :: "string \<Rightarrow> schema_def \<Rightarrow> jsval list \<Rightarrow> verror list \<Rightarrow> verror list" where
  "checkItems key itemDef xs errs =
     foldl (\<lambda>es item.
              if \<not> validateType (dtype itemDef) item
              then es @ [VError key (''Array field '' @ key @ '' contains invalid items'')]
              else es)
           errs xs"

text \<open>\<open>validateSchema(schema, data, strict)\<close> on the error list \<open>this.errors\<close>; the result
  \<open>{ valid }\<close> is \<open>this.errors.length === 0\<close> of the returned list. \<open>validateEntry\<close> is
  the body of the loop over the entries of the schema, \<open>validateProperties\<close> the loop
  over \<open>schemaDef.properties\<close>, which calls \<open>validateSchema\<close> on a one-entry schema and
  tests the \<open>valid\<close> of its result.\<close>

function validateSchema :: "(string \<times> schema_def) list \<Rightarrow> jsval \<Rightarrow> verror list \<Rightarrow> js_error + verror list"
  and validateEntry :: "string \<Rightarrow> schema_def \<Rightarrow> jsval \<Rightarrow> verror list \<Rightarrow> js_error + verror list"
  and validateProperties ::
    "string \<Rightarrow> (string \<times> schema_def) list \<Rightarrow> jsval \<Rightarrow> verror list \<Rightarrow> js_error + verror list"
where
  "validateSchema [] data errs = Inr errs"
| "validateSchema ((key, schemaDef) # rest) data errs =
     (case validateEntry key schemaDef data errs of
        Inl e \<Rightarrow> Inl e
      | Inr errs' \<Rightarrow> validateSchema rest data errs')"
| "validateEntry key (SchemaDef types props its) data errs =
     (case getProp data key of
        Inl e \<Rightarrow> Inl e
      | Inr value \<Rightarrow>
          if \<not> validateType types value then
            Inr (errs @ [VError key (''Field '' @ key @ '' does not match schema type: ''
                                       @ join '', '' types)])
          else
            (case (case props of
                     None \<Rightarrow> Inr errs
                   | Some ps \<Rightarrow>
                       if ''Object'' \<in> set types then validateProperties key ps value errs
                       else Inr errs) of
               Inl e \<Rightarrow> Inl e
             | Inr errs1 \<Rightarrow>
                 Inr (case its of
                        None \<Rightarrow> errs1
                      | Some itemDef \<Rightarrow>
                          if isArray value then checkItems key itemDef (elements value) errs1
                          else errs1)))"
| "validateProperties key [] value errs = Inr errs"
| "validateProperties key ((propKey, propSchema) # ps) value errs =
     (case validateSchema [(propKey, propSchema)] value errs of
        Inl e \<Rightarrow> Inl e
      | Inr errs' \<Rightarrow>
          validateProperties key ps value
            (if errs' \<noteq> [] then
               errs' @ [VError (key @ ''.'' @ propKey)
                               (''Property '' @ propKey @ '' validation failed'')]
             else errs'))"
  by pat_completeness auto
termination
  by (relation "inv_image (less_than <*lex*> less_than)
        (\<lambda>x. case x of
               Inl (schema', data, errs) \<Rightarrow> (size_list (size_prod (\<lambda>k. 0) size) schema', 1)
             | Inr (Inl (key, schemaDef, data, errs)) \<Rightarrow> (size schemaDef, 0)
             | Inr (Inr (key, ps, value, errs)) \<Rightarrow> (size_list (size_prod (\<lambda>k. 0) size) ps, 2))")
     auto

section \<open>Validator.validateFields\<close>

text \<open>The table \<open>validationKeywords\<close> local to \<open>validateFields\<close>.\<close>

definition validatorKeywords :: "(string \<times> string list) list" where
  "validatorKeywords =
     [(''custom'', [''Any'']),
      (''default'', [''Any'']),
      (''isNull'', [''Any'']),
      (''min'', [''Number'', ''NumberArray'', ''Uint8Array'']),
      (''max'', [''Number'', ''NumberArray'', ''Uint8Array'']),
      (''minLength'', [''String'', ''StringArray'', ''ObjectArray'', ''Array'', ''Object'',
                       ''NumberArray'', ''Uint8Array'']),
      (''maxLength'', [''String'', ''StringArray'', ''ObjectArray'', ''Array'', ''Object'',
                       ''NumberArray'', ''Uint8Array'']),
      (''maxSize'', [''Binary'', ''Array'', ''StringArray'', ''NumberArray'', ''ObjectArray'',
                     ''Object'', ''Uint8Array'']),
      (''required'', [''Any'']),
      (''isEqualTo'', [''Any'']),
      (''isDate'', [''Date'']),
      (''isPositive'', [''Number'', ''NumberArray'', ''Uint8Array'']),
      (''isNegative'', [''Number'', ''NumberArray'', ''Uint8Array'']),
      (''isUnique'', [''Any'']),
      (''hasProperties'', [''Object'', ''ObjectArray'']),
      (''notNull'', [''Any'']),
      (''pattern'', [''String'']),
      (''isEmail'', [''String'', ''StringArray'']),
      (''isURL'', [''String'']),
      (''isAlpha'', [''String'']),
      (''isNumeric'', [''String'']),
      (''isAlphanumeric'', [''String'']),
      (''isInteger'', [''Number'']),
      (''isFloat'', [''Number'']),
      (''isBoolean'', [''Boolean'']),
      (''isIP'', [''String'']),
      (''enum'', [''Any'']),
      (''minDate'', [''Date'']),
      (''maxDate'', [''Date'']),
      (''matchesField'', [''Any'']),
      (''trim'', [''String'']),
      (''lowercase'', [''String'']),
      (''uppercase'', [''String''])]"

text \<open>\<open>validationKeywords[rule].includes('NumberArray')\<close>.\<close>

definition keywordIncludes :: "string \<Rightarrow> string \<Rightarrow> bool" where
  "keywordIncludes rule type =
     (case map_of validatorKeywords rule of Some types \<Rightarrow> type \<in> set types | None \<Rightarrow> False)"

text \<open>\<open>this.errors.push({ valid: false, field, message })\<close>.\<close>

definition pushV :: "string \<Rightarrow> string \<Rightarrow> verror list \<Rightarrow> verror list" where
  "pushV field msg errs = errs @ [VError field msg]"

text \<open>The source text of the regular expression literals of \<open>isEmail\<close>
  (\<open>/^\S+@\S+\.\S+$/\<close>), \<open>isURL\<close> (\<open>/^(https?|ftp):\/\/[^\s/$.?#].[^\s]*$/\<close>),
  \<open>isAlpha\<close> (\<open>/^[A-Za-z]+$/\<close>) and \<open>isNumeric\<close> (\<open>/^\d+$/\<close>); \<open>bsl\<close> is the
  backslash.\<close>

definition bsl :: string where
  "bsl = [CHR 0x5C]"

definition emailPattern :: string where
  "emailPattern = ''^'' @ bsl @ ''S+@'' @ bsl @ ''S+'' @ bsl @ ''.'' @ bsl @ ''S+$''"

definition urlPattern :: string where
  "urlPattern = ''^(https?|ftp):'' @ bsl @ ''/'' @ bsl @ ''/[^'' @ bsl @ ''s/$.?#].[^'' @ bsl @ ''s]*$''"

definition alphaPattern :: string where
  "alphaPattern = ''^[A-Za-z]+$''"

definition numericPattern :: string where
  "numericPattern = ''^'' @ bsl @ ''d+$''"

text \<open>A test \<open>typeof value === 'string' && !regexp.test(value)\<close> followed by a push.\<close>

definition checkPattern ::
  "js_runtime \<Rightarrow> jsval \<Rightarrow> string \<Rightarrow> jsval \<Rightarrow> string \<Rightarrow> verror list \<Rightarrow> js_error + verror list" where
  "checkPattern R pattern field value msg errs =
     (case value of
        VString s \<Rightarrow>
          (case regexpTest R pattern s of
             Inl e \<Rightarrow> Inl e
           | Inr matches \<Rightarrow> Inr (if \<not> matches then pushV field msg errs else errs))
      | _ \<Rightarrow> Inr errs)"

text \<open>The body of the loop over \<open>Object.entries(rules)\<close>: the membership test and the
  \<open>switch\<close>. \<open>value.length\<close> in the branches \<open>minLength\<close>, \<open>maxLength\<close> and \<open>maxSize\<close>
  is a property access on \<open>value\<close>; \<open>ruleValue.filter\<close> and \<open>ruleValue.includes\<close> are
  method calls, defined on arrays (and \<open>includes\<close> on strings) only.\<close>

definition applyRule ::
  "js_runtime \<Rightarrow> string \<Rightarrow> jsval \<Rightarrow> string \<Rightarrow> rule_value \<Rightarrow> verror list \<Rightarrow> js_error + verror list" where
  "applyRule R field value rule ruleValue errs =
     (let rv = ruleToJs ruleValue in
      if map_of validatorKeywords rule = None then
        Inr (pushV field (''Unknown validation rule: '' @ rule) errs)
      else if rule = ''required'' then
        Inr (if value = VUndefined \<or> value = VNull
             then pushV field (field @ '' is required'') errs else errs)
      else if rule = ''isNull'' then
        Inr (if value \<noteq> VNull then pushV field (field @ '' must be null'') errs else errs)
      else if rule = ''notNull'' then
        Inr (if value = VNull then pushV field (field @ '' must not be null'') errs else errs)
      else if rule = ''min'' then
        Inr (if typeof value = ''number'' then
               (if lt R value rv
                then pushV field (field @ '' should be at least '' @ toStr R rv) errs else errs)
             else if isArray value \<and> keywordIncludes rule ''NumberArray'' then
               (if \<not> list_all (\<lambda>num. typeof num = ''number'' \<and> ge R num rv) (elements value)
                then pushV field (field @ '' must have all numbers at least '' @ toStr R rv) errs
                else errs)
             else if instanceofUint8Array value then
               (if \<not> list_all (\<lambda>num. ge R (VNumber (Num (of_nat num))) rv) (bytes value)
                then pushV field (field @ '' must have all Uint8Array elements at least ''
                                    @ toStr R rv) errs
                else errs)
             else errs)
      else if rule = ''max'' then
        Inr (if typeof value = ''number'' then
               (if gt R value rv
                then pushV field (field @ '' should not exceed '' @ toStr R rv) errs else errs)
             else if isArray value \<and> keywordIncludes rule ''NumberArray'' then
               (if \<not> list_all (\<lambda>num. typeof num = ''number'' \<and> le R num rv) (elements value)
                then pushV field (field @ '' must have all numbers no greater than '' @ toStr R rv) errs
                else errs)
             else if instanceofUint8Array value then
               (if \<not> list_all (\<lambda>num. le R (VNumber (Num (of_nat num))) rv) (bytes value)
                then pushV field (field @ '' must have all Uint8Array elements no greater than ''
                                    @ toStr R rv) errs
                else errs)
             else errs)
      else if rule = ''minLength'' then
        (case getProp value ''length'' of
           Inl e \<Rightarrow> Inl e
         | Inr len \<Rightarrow>
             Inr (if lt R len rv
                  then pushV field (field @ '' should have a minimum length of '' @ toStr R rv) errs
                  else errs))
      else if rule = ''maxLength'' then
        (case getProp value ''length'' of
           Inl e \<Rightarrow> Inl e
         | Inr len \<Rightarrow>
             Inr (if gt R len rv
                  then pushV field (field @ '' should have a maximum length of '' @ toStr R rv) errs
                  else errs))
      else if rule = ''maxSize'' then
        (case getProp value ''length'' of
           Inl e \<Rightarrow> Inl e
         | Inr len \<Rightarrow>
             Inr (if gt R len rv
                  then pushV field (field @ '' exceeds the maximum size of '' @ toStr R rv) errs
                  else errs))
      else if rule = ''isDate'' then
        Inr (if \<not> instanceofDate value
             then pushV field (field @ '' must be a valid date'') errs else errs)
      else if rule = ''isPositive'' then
        Inr (if le R value (VNumber (Num 0))
             then pushV field (field @ '' must be positive'') errs else errs)
      else if rule = ''isNegative'' then
        Inr (if ge R value (VNumber (Num 0))
             then pushV field (field @ '' must be negative'') errs else errs)
      else if rule = ''isUnique'' then
        Inr (if isArray value then
               (if setSize (elements value) \<noteq> length (elements value)
                then pushV field (field @ '' contains duplicate values'') errs else errs)
             else errs)
      else if rule = ''hasProperties'' then
        (if typeof value = ''object'' \<and> value \<noteq> VNull then
           (case ruleValue of
              RArray props \<Rightarrow>
                (let missingProps = filter (\<lambda>prop. \<not> hasProperty value prop) props
                 in Inr (if length missingProps > 0
                         then pushV field (field @ '' is missing required properties: ''
                                             @ join '', '' missingProps) errs
                         else errs))
            | _ \<Rightarrow> Inl TypeError)
         else Inr errs)
      else if rule = ''pattern'' then
        checkPattern R rv field value (field @ '' does not match the required pattern'') errs
      else if rule = ''isEmail'' then
        checkPattern R (VString emailPattern) field value
          (field @ '' must be a valid email address'') errs
      else if rule = ''isURL'' then
        checkPattern R (VString urlPattern) field value (field @ '' must be a valid URL'') errs
      else if rule = ''isAlpha'' then
        checkPattern R (VString alphaPattern) field value
          (field @ '' must contain only alphabetic characters'') errs
      else if rule = ''isNumeric'' then
        checkPattern R (VString numericPattern) field value
          (field @ '' must contain only numeric characters'') errs
      else if rule = ''isBoolean'' then
        Inr (if typeof value \<noteq> ''boolean''
             then pushV field (field @ '' must be a boolean'') errs else errs)
      else if rule = ''enum'' then
        (case ruleValue of
           RArray xs \<Rightarrow>
             Inr (if \<not> list_ex (sameValueZero value) (map VString xs)
                  then pushV field (field @ '' must be one of '' @ toStr R rv) errs else errs)
         | RString s \<Rightarrow>
             Inr (if \<not> includesStr (toStr R value) s
                  then pushV field (field @ '' must be one of '' @ toStr R rv) errs else errs)
         | _ \<Rightarrow> Inl TypeError)
      else if rule = ''minDate'' then
        Inr (if instanceofDate value \<and> lt R value (VDate (newDate R rv))
             then pushV field (field @ '' must be after '' @ toStr R rv) errs else errs)
      else if rule = ''maxDate'' then
        Inr (if instanceofDate value \<and> gt R value (VDate (newDate R rv))
             then pushV field (field @ '' must be before '' @ toStr R rv) errs else errs)
      else Inr (pushV field (''Unknown validation rule: '' @ rule) errs))"

text \<open>The loop over \<open>Object.entries(rules)\<close>; an exception ends it.\<close>

fun applyRules ::
  "js_runtime \<Rightarrow> string \<Rightarrow> jsval \<Rightarrow> rule_map \<Rightarrow> verror list \<Rightarrow> js_error + verror list" where
  "applyRules R field value [] errs = Inr errs"
| "applyRules R field value ((rule, ruleValue) # rest) errs =
     (case applyRule R field value rule ruleValue errs of
        Inl e \<Rightarrow> Inl e
      | Inr errs' \<Rightarrow> applyRules R field value rest errs')"

text \<open>\<open>validateFields(validateData, data, strict)\<close> on the error list \<open>this.errors\<close>. The
  rule tree is a rule set as the validation compiler builds it: a node is
  \<open>{ rules, ...nestedRules }\<close>. \<open>validateInput\<close> is the body of the loop over the entries
  of \<open>validateData\<close>, \<open>validateNested\<close> the loop over \<open>nestedRules\<close>, \<open>validateItems\<close>
  the loop over the elements of an array value, counting from \<open>i\<close>. The recursive calls
  are on a one-entry rule tree and a one-entry data object.\<close>

function validateFields ::
    "js_runtime \<Rightarrow> rule_set \<Rightarrow> jsval \<Rightarrow> verror list \<Rightarrow> js_error + verror list"
  and validateInput ::
    "js_runtime \<Rightarrow> string \<Rightarrow> rule_node \<Rightarrow> jsval \<Rightarrow> verror list \<Rightarrow> js_error + verror list"
  and validateNested ::
    "js_runtime \<Rightarrow> string \<Rightarrow> jsval \<Rightarrow> rule_set \<Rightarrow> verror list \<Rightarrow> js_error + verror list"
  and validateItems ::
    "js_runtime \<Rightarrow> string \<Rightarrow> rule_node \<Rightarrow> nat \<Rightarrow> jsval list \<Rightarrow> verror list
       \<Rightarrow> js_error + verror list"
where
  "validateFields R [] data errs = Inr errs"
| "validateFields R ((field, input) # rest) data errs =
     (case validateInput R field input data errs of
        Inl e \<Rightarrow> Inl e
      | Inr errs' \<Rightarrow> validateFields R rest data errs')"
| "validateInput R field (RuleNode rules nestedRules) data errs =
     (case getProp data field of
        Inl e \<Rightarrow> Inl e
      | Inr value \<Rightarrow>
          (case (case rules of
                   None \<Rightarrow> Inr errs
                 | Some rs \<Rightarrow> applyRules R field value rs errs) of
             Inl e \<Rightarrow> Inl e
           | Inr errs1 \<Rightarrow> validateNested R field value nestedRules errs1))"
| "validateNested R field value [] errs = Inr errs"
| "validateNested R field value ((nestedKey, nestedInput) # rest) errs =
     (case (if isArray (getOptional value nestedKey)
            then validateItems R field nestedInput 0 (elements (getOptional value nestedKey)) errs
            else validateFields R [(field @ ''.'' @ nestedKey, nestedInput)]
                   (VObject [(field @ ''.'' @ nestedKey, getOptional value nestedKey)]) errs) of
        Inl e \<Rightarrow> Inl e
      | Inr errs' \<Rightarrow> validateNested R field value rest errs')"
| "validateItems R field nestedInput i [] errs = Inr errs"
| "validateItems R field nestedInput i (nestedItem # rest) errs =
     (case validateFields R [(field @ ''['' @ decimal i @ '']'', nestedInput)]
             (VObject [(field @ ''['' @ decimal i @ '']'', nestedItem)]) errs of
        Inl e \<Rightarrow> Inl e
      | Inr errs' \<Rightarrow> validateItems R field nestedInput (i + 1) rest errs')"
  by pat_completeness auto
termination
  by (relation "inv_image (less_than <*lex*> less_than <*lex*> less_than)
        (\<lambda>x. case x of
               Inl (Inl (R, rs, data, errs)) \<Rightarrow> (size_list (size_prod (\<lambda>k. 0) size) rs, 1, 0)
             | Inl (Inr (R, field, input, data, errs)) \<Rightarrow> (size input, 0, 0)
             | Inr (Inl (R, field, value, rs, errs)) \<Rightarrow> (size_list (size_prod (\<lambda>k. 0) size) rs, 3, 0)
             | Inr (Inr (R, field, input, i, xs, errs)) \<Rightarrow> (size input + 2, 2, length xs))")
     auto

section \<open>Validator.validate\<close>

text \<open>The result \<open>{ valid, errors }\<close>; the last \<open>return\<close> of \<open>validate\<close> has no \<open>errors\<close>
  member.\<close>

datatype validation_result = ValidationResult (valid: bool) (resultErrors: "verror list option")

text \<open>\<open>validate({ validateData, schema, data, strict })\<close>: \<open>this.errors\<close> is reset, then
  the two passes run on it. An absent \<open>schema\<close> or \<open>validateData\<close> is \<open>None\<close>; \<open>strict\<close>
  is passed on and never read.\<close>

definition validate ::
  "js_runtime \<Rightarrow> (string \<times> schema_def) list option \<Rightarrow> rule_set option \<Rightarrow> jsval
     \<Rightarrow> js_error + validation_result" where
  "validate R schema' validateData data =
     (case (case schema' of
              Some s \<Rightarrow>
                (case validateSchema s data [] of
                   Inl e \<Rightarrow> Inl e
                 | Inr errs \<Rightarrow> Inr (errs, \<not> (length errs = 0)))
            | None \<Rightarrow> Inr ([], False)) of
        Inl e \<Rightarrow> Inl e
      | Inr (errs1, invalid1) \<Rightarrow>
          if invalid1 then Inr (ValidationResult False (Some errs1))
          else
            (case (case validateData of
                     Some rs \<Rightarrow>
                       (case validateFields R rs data errs1 of
                          Inl e \<Rightarrow> Inl e
                        | Inr errs \<Rightarrow> Inr (errs, \<not> (length errs = 0)))
                   | None \<Rightarrow> Inr (errs1, False)) of
               Inl e \<Rightarrow> Inl e
             | Inr (errs2, invalid2) \<Rightarrow>
                 if invalid2 then Inr (ValidationResult False (Some errs2))
                 else Inr (ValidationResult (length errs2 = 0) None)))"

section \<open>Notions used to state the claims\<close>









text \<open>A line of a \<open>@validations\<close> section that produces one Diagnostic independently of
  what came before it: it is neither \<open>@end\<close> nor a comment, and from every state of the
  compiler (with the given schema and keyword table) its iteration records exactly one
  more Diagnostic.\<close>

definition yieldsOneDiagnostic ::
  "date_support \<Rightarrow> schema \<Rightarrow> (string \<times> string list) list \<Rightarrow> string \<Rightarrow> bool" where
  "yieldsOneDiagnostic D sch kw l =
     (trim l \<noteq> ''@end'' \<and> \<not> startsWith ''!#'' (trim l)
      \<and> (\<forall>this :: validation_parser.
            parsedSchema this = sch \<and> validationKeywords this = kw \<longrightarrow>
            (\<exists>this'. validationStep D (trim l) this = Inr this'
                     \<and> length (errors this') = length (errors this) + 1)))"

text \<open>A schema compiler that reports sixty Diagnostics, for the examples.\<close>

definition sixtyErrors :: "unit section_parsers" where
  "sixtyErrors =
     \<lparr> schemaParser = (\<lambda>types ls pos. Inr ([], replicate 60 (Diagnostic (Some 1) ''bad type''), ls, pos)),
       recordParser = (\<lambda>ls pos limit. Inr (replicate 60 (Diagnostic (Some 1) ''bad record''), [], pos)) \<rparr>"


definition noCoercions :: js_runtime where
  "noCoercions =
     \<lparr> toStr = (\<lambda>v. []), lessThan = (\<lambda>a b. None), regexpTest = (\<lambda>p s. Inr True),
       newDate = (\<lambda>v. InvalidDate) \<rparr>"

section \<open>Evaluation rules\<close>

lemmas string_defs = sq_def dq_def isWhite_def isDigit_def trimStart_def trim_def startsWith_def
  endsWith_def slice1_def split_def allDigits_def digitsDotDigits_def

lemmas number_defs = isNaN_def negate_def digitVal_def natOfDigits_def decValue_def
  exponentPart_def unsignedDecimal_def strDecimalLiteral_def parseFloat_def parseInt10_def
  nonDecimal_def toNumber_def toBigInt_def MAX_SAFE_INTEGER_def outsideSafeRange_def

lemmas compiler_defs = setOwn_def newSQONValidation_def pushError_def truthyArray_def truthyObject_def
  getSchemaType_def descend_def partBeforeLast_def lastPart_def typeofRule_def isArrayRule_def
  valueFitsType_def validateObjectArrayItems_def validateObjectProperties_def checkRule_def
  validateRulesAgainstSchema_def spread_def addValidation_def processValidationLine_def
  validationStep_def parseRules_def parseRule_def parseArray_def parseObject_def invalidFormat_def
  validationKeywordsTable_def

lemmas sqon_defs = newSQON_def MAX_ERRORS_def SQON_parseSchema_def SQON_parseValidation_def
  SQON_parseRecords_def checkSectionOrder_def toUpperCase_def advance_def parseLinesStep_def
  parseLinesEnd_def dropCR_def splitLines_def contentLines_def parseContent_def

lemmas access_defs = isNullish_def getOwn_def getProp_def getOptional_def

section \<open>Value inference on record literals (claims C7 and C8)\<close>

text \<open>
  Claim C7. \<open>parseValue\<close> on the scalar inputs \<open>TRUE\<close>, \<open>FALSE\<close>, \<open>NULL\<close>, the empty
  string, \<open>"x"\<close>, \<open><Buffer 1 2>\<close>, \<open>42\<close> and \<open>3.14\<close> returns a value (no exception and
  no \<open>error\<close> result) of type \<open>Boolean\<close>, \<open>Boolean\<close>, \<open>Null\<close>, \<open>undefined\<close>, \<open>String\<close>,
  \<open>Binary\<close>, \<open>Number\<close>, \<open>Number\<close> respectively; and the double-quoted empty string
  \<open>""\<close> gives \<open>undefined\<close>, not \<open>String\<close>. This holds whatever the date helpers are.
\<close>

theorem parseValue_scalar_literals:
  "parseValue D (Some ''TRUE'') = Inr (Parsed (PBool True) ''Boolean'')
   \<and> parseValue D (Some ''FALSE'') = Inr (Parsed (PBool False) ''Boolean'')
   \<and> parseValue D (Some ''NULL'') = Inr (Parsed PNull ''Null'')
   \<and> parseValue D (Some []) = Inr (Parsed PUndefined ''undefined'')
   \<and> parseValue D (Some (dq @ ''x'' @ dq)) = Inr (Parsed (PString ''x'') ''String'')
   \<and> parseValue D (Some ''<Buffer 1 2>'') = Inr (Parsed (PString ''<Buffer 1 2>'') ''Binary'')
   \<and> parseValue D (Some ''42'') = Inr (Parsed (PNumber (Num 42)) ''Number'')
   \<and> parseValue D (Some ''3.14'') = Inr (Parsed (PNumber (Num (314 / 100))) ''Number'')
   \<and> parseValue D (Some (dq @ dq)) = Inr (Parsed PUndefined ''undefined'')"
  by (simp add: parseValue_def string_defs number_defs)

text \<open>
  Claim C8 (the code departs from it). The literal \<open>1e21\<close> is numeric, is not prefixed
  \<open>0x\<close> and lies outside the safe-integer range, so \<open>parseValue\<close> calls
  \<open>BigInt("1e21")\<close>, which throws a \<open>SyntaxError\<close>: no Number value is produced. The same
  happens for a literal with a fraction such as \<open>9007199254740993.5\<close>.
\<close>

theorem parseValue_exponent_literal_throws:
  "toNumber ''1e21'' = Num (10 ^ 21)
   \<and> \<not> startsWith ''0x'' ''1e21''
   \<and> parseValue D (Some ''1e21'') = Inl SyntaxError
   \<and> parseValue D (Some ''9007199254740993.5'') = Inl SyntaxError"
  by (simp add: parseValue_def string_defs number_defs)

section \<open>The validation compiler (claims C1, C2 and C5)\<close>

text \<open>
  Claim C1 (the code departs from it). The guard of \<open>validateRulesAgainstSchema\<close> that
  records "Schema type not found" tests \<open>!schemaTypeArray\<close>, and \<open>getSchemaType\<close> returns
  the empty array, which is truthy, for a path that does not resolve. With the schema
  \<open>age -> Number\<close>, the line \<open>name -> required=true\<close> has an unresolved path, yet no
  Diagnostic is recorded and its rule is merged into the rule set under \<open>name\<close>.
\<close>

theorem unresolved_path_is_merged:
  "getSchemaType
     (newSQONValidation [''name -> required=true'', ''@end''] 0
        [(''age'', SchemaNode [''Number''] None None)] validationKeywordsTable) ''name'' = []
   \<and> parseValidation D
       (newSQONValidation [''name -> required=true'', ''@end''] 0
          [(''age'', SchemaNode [''Number''] None None)] validationKeywordsTable)
     = Inr \<lparr> lines = [''name -> required=true'', ''@end''], position = 1,
             validations = [(''name'', RuleNode (Some [(''required'', RBool True)]) [])],
             errors = [],
             parsedSchema = [(''age'', SchemaNode [''Number''] None None)],
             validationKeywords = validationKeywordsTable \<rparr>"
  by (simp add: parseValidation.simps compiler_defs string_defs number_defs)

text \<open>
  Claim C2 (the code departs from it). The keyword table of the orchestrator has no entry
  for \<open>default\<close>, \<open>isEqualTo\<close>, \<open>custom\<close>, \<open>matchesField\<close> and \<open>maxSize\<close>. With the
  schema \<open>age -> Number\<close>, the line \<open>age -> default=5\<close> applies \<open>default\<close> to a resolved
  field and is answered by the Diagnostic "Validation rule 'default' is not defined.";
  the rule set stays empty.
\<close>

theorem default_rule_is_not_defined:
  "map_of validationKeywordsTable ''default'' = None
   \<and> map_of validationKeywordsTable ''isEqualTo'' = None
   \<and> map_of validationKeywordsTable ''custom'' = None
   \<and> map_of validationKeywordsTable ''matchesField'' = None
   \<and> map_of validationKeywordsTable ''maxSize'' = None
   \<and> parseValidation D
       (newSQONValidation [''age -> default=5'', ''@end''] 0
          [(''age'', SchemaNode [''Number''] None None)] validationKeywordsTable)
     = Inr \<lparr> lines = [''age -> default=5'', ''@end''], position = 1,
             validations = [],
             errors = [Diagnostic (Some 1)
                         (''Validation rule '' @ sq @ ''default'' @ sq @ '' is not defined.'')],
             parsedSchema = [(''age'', SchemaNode [''Number''] None None)],
             validationKeywords = validationKeywordsTable \<rparr>"
  by (simp add: parseValidation.simps compiler_defs string_defs number_defs)








section \<open>The orchestrator (claims C3, C4 and C6)\<close>

text \<open>
  Claim C3 (the code departs from it). The \<open>@validations\<close> branch of \<open>parseLines\<close>
  compares the requested section with \<open>'schema'\<close>, not \<open>'validations'\<close>. When the caller
  asks for \<open>'validations'\<close>, the marker line is skipped and the first rule line reaches
  the fallback branch, which throws "Invalid section parsing!"; with an empty section
  the loop runs to the end of input and no rule set is compiled. This holds whatever the
  schema and record compilers are.
\<close>

theorem validations_mode_throws:
  "parseLines D P
     (newSQON (Some OnlyValidations) [''@validations'', ''age -> required=true'', ''@end''])
     = Some (Inl (Error ''Invalid section parsing!''))
   \<and> parseLines D P (newSQON (Some OnlyValidations) [''@validations'', ''@end''])
     = Some (Inr (ParsedResult False [] [] [] []))
   \<and> parseContent D P (Some OnlyValidations)
       (''@validations'' @ [CHR 0x0A] @ ''age -> required=true'' @ [CHR 0x0A] @ ''@end'')
     = Some (Inl (Error ''Invalid section parsing!''))"
  by (simp add: parseLines.simps sqon_defs compiler_defs string_defs)

text \<open>
  Claim C4 (the code departs from it). The end-of-input check for the schema tests
  \<open>!this.parsedSchema\<close>, and \<open>parsedSchema\<close> starts as the empty object, which is truthy.
  A document without any section, parsed in full-document mode, gets the Diagnostic for
  \<open>@records\<close> and none for \<open>@schema\<close>.
\<close>

theorem missing_schema_not_reported:
  "parseLines D P (newSQON None [''hello''])
     = Some (Inr (ParsedResult False [] [] []
          [Diagnostic (Some 1) (''Unknown section or command: '' @ dq @ ''hello'' @ dq),
           Diagnostic None (''Missing required section: '' @ sq @ ''@records'' @ sq)]))
   \<and> parseContent D P None ''hello''
     = Some (Inr (ParsedResult False [] [] []
          [Diagnostic (Some 1) (''Unknown section or command: '' @ dq @ ''hello'' @ dq),
           Diagnostic None (''Missing required section: '' @ sq @ ''@records'' @ sq)]))"
  by (simp add: parseLines.simps sqon_defs compiler_defs string_defs)

text \<open>The loop of \<open>parseValidation\<close> over a run of lines that each record one Diagnostic,
  up to the closing \<open>@end\<close>.\<close>

lemma parseValidation_erroring_lines:
  fixes this :: validation_parser
  assumes "lines this = pre @ ls @ ''@end'' # post"
    and "position this = length pre"
    and "\<forall>l \<in> set ls. yieldsOneDiagnostic D (parsedSchema this) (validationKeywords this) l"
  shows "\<exists>t. parseValidation D this = Inr t
             \<and> length (errors t) = length (errors this) + length ls
             \<and> position t = length pre + length ls \<and> lines t = lines this"
  using assms
proof (induction ls arbitrary: this pre)
  case Nil
  then have "position this < length (lines this)" "lines this ! position this = ''@end''"
    by (simp_all add: nth_append)
  with Nil.prems(2) show ?case
    by (subst parseValidation.simps) (simp add: string_defs)
next
  case (Cons l ls)
  have pos: "position this < length (lines this)" and cur: "lines this ! position this = l"
    using Cons.prems(1,2) by (simp_all add: nth_append)
  from Cons.prems(3)
  have y: "yieldsOneDiagnostic D (parsedSchema this) (validationKeywords this) l"
    by simp
  then obtain this' where step: "validationStep D (trim l) this = Inr this'"
    and len: "length (errors this') = length (errors this) + 1"
    unfolding yieldsOneDiagnostic_def by blast
  from cursor_validationStep[OF step]
  have cur': "lines this' = lines this" "position this' = position this"
    "parsedSchema this' = parsedSchema this" "validationKeywords this' = validationKeywords this"
    by (simp_all add: cursor_def)
  let ?next = "this'\<lparr>position := position this' + 1\<rparr>"
  have "lines ?next = (pre @ [l]) @ ls @ ''@end'' # post" using cur' Cons.prems(1) by simp
  moreover have "position ?next = length (pre @ [l])" using cur' Cons.prems(2) by simp
  moreover have "\<forall>l \<in> set ls. yieldsOneDiagnostic D (parsedSchema ?next) (validationKeywords ?next) l"
    using Cons.prems(3) cur' by simp
  ultimately obtain t where t: "parseValidation D ?next = Inr t"
    "length (errors t) = length (errors ?next) + length ls"
    "position t = length (pre @ [l]) + length ls" "lines t = lines ?next"
    using Cons.IH[of ?next "pre @ [l]"] by blast
  have "parseValidation D this = parseValidation D ?next"
    using pos cur y step
    by (subst parseValidation.simps) (simp add: yieldsOneDiagnostic_def)
  with t len cur' show ?case by simp
qed

text \<open>A non-blank line without an arrow is such a line: it records "Invalid validation
  line".\<close>

lemma no_arrow_yieldsOneDiagnostic:
  assumes "trim l \<noteq> ''@end''" "\<not> startsWith ''!#'' (trim l)"
    and "\<not> includesStr ''->'' (trim l)" "trim l \<noteq> []"
  shows "yieldsOneDiagnostic D sch kw l"
  using assms by (simp add: yieldsOneDiagnostic_def validationStep_def pushError_def)

text \<open>\<open>checkSectionOrder\<close> writes \<open>errors\<close> and \<open>sectionOrder\<close> only.\<close>

lemma checkSectionOrder_frame:
  "lines (checkSectionOrder sec this) = lines this"
  "position (checkSectionOrder sec this) = position this"
  "parsedSchema (checkSectionOrder sec this) = parsedSchema this"
  "validationKeywords (checkSectionOrder sec this) = validationKeywords this"
  by (simp_all add: checkSectionOrder_def pushError_def Let_def)

text \<open>The iteration of \<open>parseLines\<close> on a section marker, in full-document mode: after
  the Diagnostics of \<open>checkSectionOrder\<close>, the first 50 of the section compiler's.\<close>

lemma step_opens_schema:
  assumes "onlySection this = None" "lines this ! position this = ''@schema''"
    and "schemaParser P allowedTypes (lines this) (position this + 1) = Inr (sch, errs, ls', pos')"
  shows "\<exists>t. parseLinesStep D P this = Next t
             \<and> errors t = errors (checkSectionOrder ''@schema'' this) @ take 50 errs"
  using assms
  by (simp add: parseLinesStep_def startsWith_def advance_def SQON_parseSchema_def
        checkSectionOrder_frame MAX_ERRORS_def Let_def)

lemma step_opens_validations:
  assumes "onlySection this = None" "lines this ! position this = ''@validations''"
    and "parseValidation D (newSQONValidation (lines this) (position this + 1)
           (parsedSchema this) (validationKeywords this)) = Inr r"
  shows "\<exists>t. parseLinesStep D P this = Next t
             \<and> errors t = errors (checkSectionOrder ''@validations'' this) @ take 50 (errors r)"
  using assms
  by (simp add: parseLinesStep_def startsWith_def advance_def SQON_parseValidation_def
        checkSectionOrder_frame MAX_ERRORS_def Let_def)

lemma step_opens_records:
  assumes "onlySection this = None" "lines this ! position this = ''@records''"
    and "recordParser P (lines this) (position this + 1) 500 = Inr (errs, recs, pos')"
  shows "\<exists>t. parseLinesStep D P this = Next t
             \<and> errors t = errors (checkSectionOrder ''@records'' this) @ take 50 errs"
  using assms
  by (simp add: parseLinesStep_def startsWith_def advance_def SQON_parseRecords_def
        checkSectionOrder_frame MAX_ERRORS_def Let_def)

text \<open>
  Claim C6. For every state of the orchestrator and every section compiler:
  \<^item> each of the three section methods appends to \<open>this.errors\<close> the first 50
    Diagnostics of the section compiler's result and nothing else, so at most 50
    Diagnostics of a section reach the aggregated list and the others are dropped without
    a notice;
  \<^item> in a full-document parse the iteration of \<open>parseLines\<close> on a section marker adds,
    after the Diagnostics of the section-order check, exactly these first 50;
  \<^item> when the cursor stands on a run \<open>ls\<close> of lines of a \<open>@validations\<close> section, closed
    by \<open>@end\<close>, that each produce one Diagnostic independently, the section contributes
    \<open>min (length ls) 50\<close> Diagnostics: exactly 50 for 60 such lines.
\<close>

theorem section_diagnostics_capped:
  fixes this :: "'r sqon"
  shows "(\<forall>sch errs ls' pos'.
            schemaParser P allowedTypes (lines this) (position this) = Inr (sch, errs, ls', pos')
            \<longrightarrow> (\<exists>t. SQON_parseSchema P this = Inr t \<and> errors t = errors this @ take 50 errs
                      \<and> length (errors t) \<le> length (errors this) + 50))
       \<and> (\<forall>r. parseValidation D (newSQONValidation (lines this) (position this) (parsedSchema this)
                 (validationKeywords this)) = Inr r
            \<longrightarrow> (\<exists>t. SQON_parseValidation D this = Inr t
                      \<and> errors t = errors this @ take 50 (errors r)
                      \<and> length (errors t) \<le> length (errors this) + 50))
       \<and> (\<forall>errs recs pos'.
            recordParser P (lines this) (position this) 500 = Inr (errs, recs, pos')
            \<longrightarrow> (\<exists>t. SQON_parseRecords P this = Inr t \<and> errors t = errors this @ take 50 errs
                      \<and> length (errors t) \<le> length (errors this) + 50))
       \<and> (\<forall>sch errs ls' pos'.
            onlySection this = None \<and> lines this ! position this = ''@schema''
            \<and> schemaParser P allowedTypes (lines this) (position this + 1)
                = Inr (sch, errs, ls', pos')
            \<longrightarrow> (\<exists>t. parseLinesStep D P this = Next t
                      \<and> errors t = errors (checkSectionOrder ''@schema'' this) @ take 50 errs))
       \<and> (\<forall>r. onlySection this = None \<and> lines this ! position this = ''@validations''
            \<and> parseValidation D (newSQONValidation (lines this) (position this + 1)
                 (parsedSchema this) (validationKeywords this)) = Inr r
            \<longrightarrow> (\<exists>t. parseLinesStep D P this = Next t
                      \<and> errors t = errors (checkSectionOrder ''@validations'' this)
                                     @ take 50 (errors r)))
       \<and> (\<forall>errs recs pos'.
            onlySection this = None \<and> lines this ! position this = ''@records''
            \<and> recordParser P (lines this) (position this + 1) 500 = Inr (errs, recs, pos')
            \<longrightarrow> (\<exists>t. parseLinesStep D P this = Next t
                      \<and> errors t = errors (checkSectionOrder ''@records'' this) @ take 50 errs))
       \<and> (\<forall>pre ls post.
            lines this = pre @ ls @ ''@end'' # post \<and> position this = length pre
            \<and> (\<forall>l \<in> set ls.
                  yieldsOneDiagnostic D (parsedSchema this) (validationKeywords this) l)
            \<longrightarrow> (\<exists>t new. SQON_parseValidation D this = Inr t \<and> errors t = errors this @ new
                      \<and> length new = min (length ls) 50))
       \<and> (\<forall>pre ls post.
            lines this = pre @ ls @ ''@end'' # post \<and> position this = length pre
            \<and> (\<forall>l \<in> set ls.
                  yieldsOneDiagnostic D (parsedSchema this) (validationKeywords this) l)
            \<and> length ls = 60
            \<longrightarrow> (\<exists>t new. SQON_parseValidation D this = Inr t \<and> errors t = errors this @ new
                      \<and> length new = 50))"
proof -
  let ?v = "newSQONValidation (lines this) (position this) (parsedSchema this)
              (validationKeywords this)"
  have a: "\<forall>sch errs ls' pos'.
            schemaParser P allowedTypes (lines this) (position this) = Inr (sch, errs, ls', pos')
            \<longrightarrow> (\<exists>t. SQON_parseSchema P this = Inr t \<and> errors t = errors this @ take 50 errs
                      \<and> length (errors t) \<le> length (errors this) + 50)"
    by (simp add: SQON_parseSchema_def MAX_ERRORS_def)
  have b: "\<forall>r. parseValidation D ?v = Inr r
            \<longrightarrow> (\<exists>t. SQON_parseValidation D this = Inr t
                      \<and> errors t = errors this @ take 50 (errors r)
                      \<and> length (errors t) \<le> length (errors this) + 50)"
    by (simp add: SQON_parseValidation_def MAX_ERRORS_def)
  have c: "\<forall>errs recs pos'.
            recordParser P (lines this) (position this) 500 = Inr (errs, recs, pos')
            \<longrightarrow> (\<exists>t. SQON_parseRecords P this = Inr t \<and> errors t = errors this @ take 50 errs
                      \<and> length (errors t) \<le> length (errors this) + 50)"
    by (simp add: SQON_parseRecords_def MAX_ERRORS_def)
  have d: "\<forall>sch errs ls' pos'.
            onlySection this = None \<and> lines this ! position this = ''@schema''
            \<and> schemaParser P allowedTypes (lines this) (position this + 1)
                = Inr (sch, errs, ls', pos')
            \<longrightarrow> (\<exists>t. parseLinesStep D P this = Next t
                      \<and> errors t = errors (checkSectionOrder ''@schema'' this) @ take 50 errs)"
    using step_opens_schema[of this P] by blast
  have e: "\<forall>r. onlySection this = None \<and> lines this ! position this = ''@validations''
            \<and> parseValidation D (newSQONValidation (lines this) (position this + 1)
                 (parsedSchema this) (validationKeywords this)) = Inr r
            \<longrightarrow> (\<exists>t. parseLinesStep D P this = Next t
                      \<and> errors t = errors (checkSectionOrder ''@validations'' this)
                                     @ take 50 (errors r))"
    using step_opens_validations[of this D] by blast
  have f: "\<forall>errs recs pos'.
            onlySection this = None \<and> lines this ! position this = ''@records''
            \<and> recordParser P (lines this) (position this + 1) 500 = Inr (errs, recs, pos')
            \<longrightarrow> (\<exists>t. parseLinesStep D P this = Next t
                      \<and> errors t = errors (checkSectionOrder ''@records'' this) @ take 50 errs)"
    using step_opens_records[of this P] by blast
  have g: "\<forall>pre ls post.
            lines this = pre @ ls @ ''@end'' # post \<and> position this = length pre
            \<and> (\<forall>l \<in> set ls.
                  yieldsOneDiagnostic D (parsedSchema this) (validationKeywords this) l)
            \<longrightarrow> (\<exists>t new. SQON_parseValidation D this = Inr t \<and> errors t = errors this @ new
                      \<and> length new = min (length ls) 50)"
  proof (intro allI impI)
    fix pre ls post
    assume h: "lines this = pre @ ls @ ''@end'' # post \<and> position this = length pre
            \<and> (\<forall>l \<in> set ls.
                  yieldsOneDiagnostic D (parsedSchema this) (validationKeywords this) l)"
    then have "lines ?v = pre @ ls @ ''@end'' # post" "position ?v = length pre"
      "\<forall>l \<in> set ls. yieldsOneDiagnostic D (parsedSchema ?v) (validationKeywords ?v) l"
      by (simp_all add: newSQONValidation_def)
    from parseValidation_erroring_lines[OF this]
    obtain r where r: "parseValidation D ?v = Inr r"
      "length (errors r) = length (errors ?v) + length ls"
      by blast
    then have lr: "length (errors r) = length ls" by (simp add: newSQONValidation_def)
    from b r(1) obtain t where t: "SQON_parseValidation D this = Inr t"
      "errors t = errors this @ take 50 (errors r)" by blast
    show "\<exists>t new. SQON_parseValidation D this = Inr t \<and> errors t = errors this @ new
               \<and> length new = min (length ls) 50"
      using t lr by (intro exI[of _ t] exI[of _ "take 50 (errors r)"]) simp
  qed
  have h: "\<forall>pre ls post.
            lines this = pre @ ls @ ''@end'' # post \<and> position this = length pre
            \<and> (\<forall>l \<in> set ls.
                  yieldsOneDiagnostic D (parsedSchema this) (validationKeywords this) l)
            \<and> length ls = 60
            \<longrightarrow> (\<exists>t new. SQON_parseValidation D this = Inr t \<and> errors t = errors this @ new
                      \<and> length new = 50)"
  proof (intro allI impI)
    fix pre ls post
    assume k: "lines this = pre @ ls @ ''@end'' # post \<and> position this = length pre
            \<and> (\<forall>l \<in> set ls.
                  yieldsOneDiagnostic D (parsedSchema this) (validationKeywords this) l)
            \<and> length ls = 60"
    with g obtain t new where "SQON_parseValidation D this = Inr t"
      "errors t = errors this @ new" "length new = min (length ls) 50"
      by blast
    with k show "\<exists>t new. SQON_parseValidation D this = Inr t \<and> errors t = errors this @ new
                      \<and> length new = 50"
      by (intro exI[of _ t] exI[of _ new]) simp
  qed
  show ?thesis
    by (intro conjI) (rule a, rule b, rule c, rule d, rule e, rule f, rule g, rule h)
qed

text \<open>The theorem on a document whose \<open>@validations\<close> section has 60 lines that are not
  rules, with the cursor on the first of them and with the cursor on the marker, and for
  a schema compiler that reports 60 Diagnostics.\<close>

theorem section_diagnostics_capped_witness:
  "\<forall>D. (\<exists>t new. SQON_parseValidation D
              ((newSQON None (''@schema'' # ''@end'' # ''@validations''
                                # replicate 60 ''not a rule'' @ [''@end''])
                 :: unit sqon)\<lparr>position := 3\<rparr>) = Inr t
             \<and> errors t = new \<and> length new = 50)
       \<and> (\<exists>t. SQON_parseSchema sixtyErrors
              ((newSQON None (''@schema'' # ''@end'' # ''@validations''
                                # replicate 60 ''not a rule'' @ [''@end''])
                 :: unit sqon)\<lparr>position := 3\<rparr>) = Inr t
             \<and> length (errors t) = 50)
       \<and> (\<exists>t. parseLinesStep D sixtyErrors
              (newSQON None (''@schema'' # ''@end'' # ''@validations''
                               # replicate 60 ''not a rule'' @ [''@end'']) :: unit sqon) = Next t
             \<and> length (errors t) = 50)"
proof
  fix D
  let ?doc = "newSQON None (''@schema'' # ''@end'' # ''@validations''
                              # replicate 60 ''not a rule'' @ [''@end'']) :: unit sqon"
  let ?st = "?doc\<lparr>position := 3\<rparr>"
  have 1: "lines ?st = [''@schema'', ''@end'', ''@validations'']
                         @ replicate 60 ''not a rule'' @ ''@end'' # []
           \<and> position ?st = length [''@schema'', ''@end'', ''@validations'']"
    by (simp add: newSQON_def)
  have "yieldsOneDiagnostic D (parsedSchema ?st) (validationKeywords ?st) ''not a rule''"
    by (rule no_arrow_yieldsOneDiagnostic) (simp_all add: string_defs)
  then have 3: "\<forall>l \<in> set (replicate 60 ''not a rule'').
                  yieldsOneDiagnostic D (parsedSchema ?st) (validationKeywords ?st) l"
    by simp
  have 4: "errors ?st = []" by (simp add: newSQON_def)
  have 5: "schemaParser sixtyErrors allowedTypes (lines ?st) (position ?st)
             = Inr ([], replicate 60 (Diagnostic (Some 1) ''bad type''), lines ?st, position ?st)"
    by (simp add: sixtyErrors_def)
  have 6: "onlySection ?doc = None \<and> lines ?doc ! position ?doc = ''@schema''
           \<and> schemaParser sixtyErrors allowedTypes (lines ?doc) (position ?doc + 1)
               = Inr ([], replicate 60 (Diagnostic (Some 1) ''bad type''), lines ?doc,
                      position ?doc + 1)"
    by (simp add: newSQON_def sixtyErrors_def)
  have 7: "errors (checkSectionOrder ''@schema'' ?doc) = []"
    by (simp add: newSQON_def checkSectionOrder_def)
  note atCursor = section_diagnostics_capped[of sixtyErrors ?st D]
  note atMarker = section_diagnostics_capped[of sixtyErrors ?doc D]
  have A: "\<exists>t new. SQON_parseValidation D ?st = Inr t \<and> errors t = new \<and> length new = 50"
  proof -
    from atCursor have "\<forall>pre ls post.
            lines ?st = pre @ ls @ ''@end'' # post \<and> position ?st = length pre
            \<and> (\<forall>l \<in> set ls.
                  yieldsOneDiagnostic D (parsedSchema ?st) (validationKeywords ?st) l)
            \<and> length ls = 60
            \<longrightarrow> (\<exists>t new. SQON_parseValidation D ?st = Inr t \<and> errors t = errors ?st @ new
                      \<and> length new = 50)"
      by (elim conjE)
    then have "lines ?st = [''@schema'', ''@end'', ''@validations'']
                         @ replicate 60 ''not a rule'' @ ''@end'' # []
           \<and> position ?st = length [''@schema'', ''@end'', ''@validations'']
           \<and> (\<forall>l \<in> set (replicate 60 ''not a rule'').
                  yieldsOneDiagnostic D (parsedSchema ?st) (validationKeywords ?st) l)
           \<and> length (replicate 60 ''not a rule'') = 60
            \<longrightarrow> (\<exists>t new. SQON_parseValidation D ?st = Inr t \<and> errors t = errors ?st @ new
                      \<and> length new = 50)"
      by blast
    with 1 3 4 show ?thesis by simp
  qed
  have B: "\<exists>t. SQON_parseSchema sixtyErrors ?st = Inr t \<and> length (errors t) = 50"
  proof -
    from atCursor have "\<forall>sch errs ls' pos'.
            schemaParser sixtyErrors allowedTypes (lines ?st) (position ?st) = Inr (sch, errs, ls', pos')
            \<longrightarrow> (\<exists>t. SQON_parseSchema sixtyErrors ?st = Inr t \<and> errors t = errors ?st @ take 50 errs
                      \<and> length (errors t) \<le> length (errors ?st) + 50)"
      by (elim conjE)
    with 5 obtain t where "SQON_parseSchema sixtyErrors ?st = Inr t"
      "errors t = errors ?st @ take 50 (replicate 60 (Diagnostic (Some 1) ''bad type''))"
      by blast
    with 4 show ?thesis by simp
  qed
  have C: "\<exists>t. parseLinesStep D sixtyErrors ?doc = Next t \<and> length (errors t) = 50"
  proof -
    from atMarker have "\<forall>sch errs ls' pos'.
            onlySection ?doc = None \<and> lines ?doc ! position ?doc = ''@schema''
            \<and> schemaParser sixtyErrors allowedTypes (lines ?doc) (position ?doc + 1)
                = Inr (sch, errs, ls', pos')
            \<longrightarrow> (\<exists>t. parseLinesStep D sixtyErrors ?doc = Next t
                      \<and> errors t = errors (checkSectionOrder ''@schema'' ?doc) @ take 50 errs)"
      by (elim conjE)
    with 6 obtain t where "parseLinesStep D sixtyErrors ?doc = Next t"
      "errors t = errors (checkSectionOrder ''@schema'' ?doc)
                    @ take 50 (replicate 60 (Diagnostic (Some 1) ''bad type''))"
      by blast
    with 7 show ?thesis by simp
  qed
  from A B C
  show "(\<exists>t new. SQON_parseValidation D ?st = Inr t \<and> errors t = new \<and> length new = 50)
       \<and> (\<exists>t. SQON_parseSchema sixtyErrors ?st = Inr t \<and> length (errors t) = 50)
       \<and> (\<exists>t. parseLinesStep D sixtyErrors ?doc = Next t \<and> length (errors t) = 50)"
    by blast
qed

section \<open>The runtime validator (claims C9 and C10)\<close>

text \<open>
  Claim C9. There are inputs on which \<open>validateFields\<close> throws a \<open>TypeError\<close> instead of
  returning: a rule tree whose node for a field \<open>f\<close> has the rule \<open>minLength\<close>,
  \<open>maxLength\<close> or \<open>maxSize\<close> (with any rule value), and data in which \<open>f\<close> is \<open>null\<close>,
  \<open>undefined\<close> or absent. The \<open>.length\<close> access of these branches is not guarded, and
  \<open>validate\<close> rejects with the same error.
\<close>

theorem length_rules_throw_on_nullish:
  "validateFields R [(f, RuleNode (Some [(''minLength'', rv)]) [])] (VObject [(f, VNull)]) errs
     = Inl TypeError
   \<and> validateFields R [(f, RuleNode (Some [(''minLength'', rv)]) [])] (VObject [(f, VUndefined)]) errs
     = Inl TypeError
   \<and> validateFields R [(f, RuleNode (Some [(''minLength'', rv)]) [])] (VObject []) errs
     = Inl TypeError
   \<and> validateFields R [(f, RuleNode (Some [(''maxLength'', rv)]) [])] (VObject [(f, VNull)]) errs
     = Inl TypeError
   \<and> validateFields R [(f, RuleNode (Some [(''maxLength'', rv)]) [])] (VObject [(f, VUndefined)]) errs
     = Inl TypeError
   \<and> validateFields R [(f, RuleNode (Some [(''maxSize'', rv)]) [])] (VObject [(f, VNull)]) errs
     = Inl TypeError
   \<and> validateFields R [(f, RuleNode (Some [(''maxSize'', rv)]) [])] (VObject [(f, VUndefined)]) errs
     = Inl TypeError
   \<and> validate R None (Some [(''name'', RuleNode (Some [(''minLength'', RNumber (Num 3))]) [])])
        (VObject [(''name'', VNull)])
     = Inl TypeError"
  by (simp add: access_defs applyRule_def validatorKeywords_def validate_def)

text \<open>
  Claim C10, as amended. In a call of \<open>validate\<close> with both a schema and rules:
  \<^item> when the schema pass returns with at least one error, \<open>validate\<close> returns
    \<open>{ valid: false, errors }\<close> with exactly the errors of the schema pass, whatever the
    rules are: no rule is evaluated;
  \<^item> when the schema pass throws, \<open>validate\<close> throws the same exception, again whatever
    the rules are;
  \<^item> so every result of \<open>validate\<close> carries either the errors of the schema pass alone, or,
    when the schema pass found none, the errors of the rule pass alone (run from the empty
    list): the two kinds never occur in one result.
\<close>

theorem schema_errors_stop_validate:
  "(\<forall>errs. validateSchema s data [] = Inr errs \<and> errs \<noteq> [] \<longrightarrow>
      (\<forall>rs. validate R (Some s) (Some rs) data = Inr (ValidationResult False (Some errs))))
   \<and> (\<forall>e. validateSchema s data [] = Inl e \<longrightarrow>
      (\<forall>rs. validate R (Some s) (Some rs) data = Inl e))
   \<and> (\<forall>rs res. validate R (Some s) (Some rs) data = Inr res \<longrightarrow>
        (\<exists>errs. validateSchema s data [] = Inr errs \<and> errs \<noteq> []
                \<and> res = ValidationResult False (Some errs))
        \<or> (validateSchema s data [] = Inr []
            \<and> (\<exists>errs'. validateFields R rs data [] = Inr errs'
                   \<and> res = (if errs' = [] then ValidationResult True None
                            else ValidationResult False (Some errs')))))"
  by (auto simp add: validate_def split: sum.splits if_splits)

text \<open>The theorem on the schema \<open>name: String\<close>, the data \<open>{ name: null }\<close> and the rule
  \<open>minLength = 3\<close> on \<open>name\<close>: the rule pass alone would throw, and \<open>validate\<close> returns
  the schema error.\<close>

theorem schema_errors_stop_validate_witness:
  "\<forall>R. validateSchema [(''name'', SchemaDef [''String''] None None)] (VObject [(''name'', VNull)]) []
          = Inr [VError ''name'' ''Field name does not match schema type: String'']
      \<and> validateFields R [(''name'', RuleNode (Some [(''minLength'', RNumber (Num 3))]) [])]
          (VObject [(''name'', VNull)]) [] = Inl TypeError
      \<and> validate R (Some [(''name'', SchemaDef [''String''] None None)])
          (Some [(''name'', RuleNode (Some [(''minLength'', RNumber (Num 3))]) [])])
          (VObject [(''name'', VNull)])
          = Inr (ValidationResult False
                   (Some [VError ''name'' ''Field name does not match schema type: String'']))"
proof
  fix R
  have 1: "validateSchema [(''name'', SchemaDef [''String''] None None)] (VObject [(''name'', VNull)]) []
          = Inr [VError ''name'' ''Field name does not match schema type: String'']"
    by (simp add: access_defs typeof_def)
  have 2: "validateFields R [(''name'', RuleNode (Some [(''minLength'', RNumber (Num 3))]) [])]
          (VObject [(''name'', VNull)]) [] = Inl TypeError"
    by (simp add: access_defs applyRule_def validatorKeywords_def)
  have 3: "[VError ''name'' ''Field name does not match schema type: String''] \<noteq> []"
    by simp
  have "validate R (Some [(''name'', SchemaDef [''String''] None None)])
          (Some [(''name'', RuleNode (Some [(''minLength'', RNumber (Num 3))]) [])])
          (VObject [(''name'', VNull)])
          = Inr (ValidationResult False
                   (Some [VError ''name'' ''Field name does not match schema type: String'']))"
    using conjunct1[OF schema_errors_stop_validate[of "[(''name'', SchemaDef [''String''] None None)]"
      "VObject [(''name'', VNull)]" R]] 1 3
    by blast
  with 1 2
  show "validateSchema [(''name'', SchemaDef [''String''] None None)] (VObject [(''name'', VNull)]) []
          = Inr [VError ''name'' ''Field name does not match schema type: String'']
      \<and> validateFields R [(''name'', RuleNode (Some [(''minLength'', RNumber (Num 3))]) [])]
          (VObject [(''name'', VNull)]) [] = Inl TypeError
      \<and> validate R (Some [(''name'', SchemaDef [''String''] None None)])
          (Some [(''name'', RuleNode (Some [(''minLength'', RNumber (Num 3))]) [])])
          (VObject [(''name'', VNull)])
          = Inr (ValidationResult False
                   (Some [VError ''name'' ''Field name does not match schema type: String'']))"
    by blast
qed

text \<open>
  Claim C10 as the specification states it fails when the schema pass throws after it has
  recorded an error. With the schema \<open>a: String\<close>, \<open>b: Null | Object { c: String }\<close> and
  the data \<open>{ a: 1, b: null }\<close>, the entry \<open>a\<close> records a type error; the entry \<open>b\<close>
  passes the type test as \<open>Null\<close>, and the loop over its properties reads \<open>c\<close> of
  \<open>null\<close>. The schema pass throws a \<open>TypeError\<close> and so does \<open>validate\<close>: it does not
  return \<open>{ valid: false }\<close>.
\<close>

theorem schema_pass_records_then_throws:
  "validateEntry ''a'' (SchemaDef [''String''] None None)
      (VObject [(''a'', VNumber (Num 1)), (''b'', VNull)]) []
     = Inr [VError ''a'' ''Field a does not match schema type: String'']
   \<and> validateSchema
       [(''a'', SchemaDef [''String''] None None),
        (''b'', SchemaDef [''Null'', ''Object'']
                  (Some [(''c'', SchemaDef [''String''] None None)]) None)]
       (VObject [(''a'', VNumber (Num 1)), (''b'', VNull)]) []
     = Inl TypeError
   \<and> validate noCoercions
       (Some [(''a'', SchemaDef [''String''] None None),
              (''b'', SchemaDef [''Null'', ''Object'']
                        (Some [(''c'', SchemaDef [''String''] None None)]) None)])
       (Some [(''a'', RuleNode (Some [(''required'', RBool True)]) [])])
       (VObject [(''a'', VNumber (Num 1)), (''b'', VNull)])
     = Inl TypeError"
  by (simp add: access_defs typeof_def validate_def)

section \<open>Further properties of value inference and of the orchestrator\<close>

lemma digit_not_white: "isDigit c \<Longrightarrow> \<not> isWhite c"
  by (auto simp add: isDigit_def isWhite_def)

lemma allDigits_takeWhile: "allDigits s \<Longrightarrow> takeWhile isDigit s = s \<and> dropWhile isDigit s = []"
  by (simp add: allDigits_def list_all_iff)

lemma allDigits_rev: "allDigits s \<Longrightarrow> allDigits (rev s)"
  by (simp add: allDigits_def list_all_iff)

lemma allDigits_trimStart: "allDigits s \<Longrightarrow> trimStart s = s"
  by (cases s) (simp_all add: allDigits_def trimStart_def digit_not_white)

lemma allDigits_trim: "allDigits s \<Longrightarrow> trim s = s"
proof -
  assume a: "allDigits s"
  then have "dropWhile isWhite s = s" using allDigits_trimStart by (simp add: trimStart_def)
  moreover have "dropWhile isWhite (rev s) = rev s"
    using allDigits_trimStart[OF allDigits_rev[OF a]] by (simp add: trimStart_def)
  ultimately show ?thesis by (simp add: trim_def)
qed

lemma allDigits_not_startsWith:
  assumes "allDigits s" "c \<in> set p" "\<not> isDigit c"
  shows "\<not> startsWith p s"
proof
  assume "startsWith p s"
  then have "set p \<subseteq> set s"
    unfolding startsWith_def by (metis set_take_subset)
  with assms show False by (auto simp add: allDigits_def list_all_iff)
qed

lemma allDigits_nonDecimal: "allDigits s \<Longrightarrow> nonDecimal s = None"
  by (auto simp add: nonDecimal_def allDigits_def isDigit_def split: list.splits)

lemma allDigits_strDecimalLiteral:
  assumes "allDigits s"
  shows "strDecimalLiteral s = Some (Num (of_nat (natOfDigits 10 s)), [])"
proof -
  from assms obtain c cs where s: "s = c # cs" and c: "isDigit c"
    by (cases s) (auto simp add: allDigits_def)
  have pm: "c \<noteq> CHR ''+''" "c \<noteq> CHR ''-''" using c by (auto simp add: isDigit_def)
  have inf: "\<not> startsWith ''Infinity'' s"
    by (rule allDigits_not_startsWith[OF assms, of "CHR ''I''"]) (simp_all add: isDigit_def)
  have "unsignedDecimal s = Some (Num (of_nat (natOfDigits 10 s)), [])"
    using inf allDigits_takeWhile[OF assms] s
    by (simp add: unsignedDecimal_def exponentPart_def decValue_def)
  then show ?thesis using pm s by (simp add: strDecimalLiteral_def)
qed

lemma allDigits_toNumber:
  "allDigits s \<Longrightarrow> toNumber s = Num (of_nat (natOfDigits 10 s))"
  by (simp add: toNumber_def allDigits_trim allDigits_nonDecimal allDigits_strDecimalLiteral)
     (simp add: allDigits_def)

lemma allDigits_parseFloat:
  "allDigits s \<Longrightarrow> parseFloat s = Num (of_nat (natOfDigits 10 s))"
  by (simp add: parseFloat_def allDigits_trimStart allDigits_strDecimalLiteral)

lemma allDigits_toBigInt:
  assumes "allDigits s"
  shows "toBigInt s = Inr (int (natOfDigits 10 s))"
proof -
  from assms obtain c cs where s: "s = c # cs" and c: "isDigit c"
    by (cases s) (auto simp add: allDigits_def)
  have pm: "c \<noteq> CHR ''+''" "c \<noteq> CHR ''-''" using c by (auto simp add: isDigit_def)
  have ne: "s \<noteq> []" using s by simp
  have "toBigInt s = (case s of [] \<Rightarrow> Inl SyntaxError
                      | c # u \<Rightarrow>
                        if c = CHR ''-'' then
                          (if allDigits u then Inr (- int (natOfDigits 10 u)) else Inl SyntaxError)
                        else if c = CHR ''+'' then
                          (if allDigits u then Inr (int (natOfDigits 10 u)) else Inl SyntaxError)
                        else (if allDigits s then Inr (int (natOfDigits 10 s)) else Inl SyntaxError))"
    unfolding toBigInt_def Let_def allDigits_trim[OF assms] allDigits_nonDecimal[OF assms]
    using ne by simp
  also have "\<dots> = Inr (int (natOfDigits 10 s))"
    using assms pm by (simp add: s)
  finally show ?thesis .
qed

lemma outsideSafeRange_nat:
  "outsideSafeRange (Num (of_nat n)) = (2 ^ 53 \<le> n)"
proof -
  have "(of_int (2 * MAX_SAFE_INTEGER + 1) \<le> 2 * (of_nat n :: rat))
          = (2 * MAX_SAFE_INTEGER + 1 \<le> 2 * int n)"
    by (metis of_int_le_iff of_int_mult of_int_numeral of_int_of_nat_eq)
  moreover have "\<not> (2 * (of_nat n :: rat) \<le> - of_int (2 * MAX_SAFE_INTEGER + 1))"
  proof -
    have "(0::rat) \<le> 2 * of_nat n" by simp
    moreover have "- of_int (2 * MAX_SAFE_INTEGER + 1) < (0::rat)"
      by (simp add: MAX_SAFE_INTEGER_def)
    ultimately show ?thesis by linarith
  qed
  moreover have "(2 * MAX_SAFE_INTEGER + 1 \<le> 2 * int n) = (2 ^ 53 \<le> n)"
    by (simp add: MAX_SAFE_INTEGER_def) presburger
  ultimately show ?thesis by (simp add: outsideSafeRange_def)
qed

text \<open>
  A literal that is a run of decimal digits gives a value of type \<open>Number\<close> without an
  error: the number itself up to \<open>2^53 - 1\<close>, and from \<open>2^53\<close> on the exact integer of
  the digits as a BigInt.
\<close>

theorem parseValue_digits:
  assumes "allDigits s"
  shows "parseValue D (Some s) =
           Inr (if 2 ^ 53 \<le> natOfDigits 10 s
                then Parsed (PBigInt (int (natOfDigits 10 s))) ''Number''
                else Parsed (PNumber (Num (of_nat (natOfDigits 10 s)))) ''Number'')"
proof -
  have ne: "s \<noteq> []" using assms by (simp add: allDigits_def)
  have 1: "\<not> startsWith dq s"
    by (rule allDigits_not_startsWith[OF assms, of "CHR 0x22"]) (simp_all add: isDigit_def dq_def)
  have 2: "\<not> startsWith ''<Buffer'' s"
    by (rule allDigits_not_startsWith[OF assms, of "CHR ''<''"]) (simp_all add: isDigit_def)
  have 3: "\<not> startsWith ''Uint8Array['' s"
    by (rule allDigits_not_startsWith[OF assms, of "CHR ''U''"]) (simp_all add: isDigit_def)
  have 4: "\<not> startsWith ''0x'' s"
    by (rule allDigits_not_startsWith[OF assms, of "CHR ''x''"]) (simp_all add: isDigit_def)
  show ?thesis
    using ne 1 2 3 4
    by (simp add: parseValue_def allDigits_toNumber[OF assms] allDigits_parseFloat[OF assms]
          allDigits_toBigInt[OF assms] outsideSafeRange_nat isNaN_def)
qed

text \<open>The theorem at the first unsafe odd integer and at the largest safe integer.\<close>

theorem parseValue_digits_witness:
  "\<forall>D. parseValue D (Some ''9007199254740993'') = Inr (Parsed (PBigInt 9007199254740993) ''Number'')
     \<and> parseValue D (Some ''9007199254740991'') = Inr (Parsed (PNumber (Num 9007199254740991)) ''Number'')"
proof
  fix D
  have a: "allDigits ''9007199254740993''" "allDigits ''9007199254740991''"
    by (simp_all add: allDigits_def isDigit_def)
  have n: "natOfDigits 10 ''9007199254740993'' = 9007199254740993"
    "natOfDigits 10 ''9007199254740991'' = 9007199254740991"
    by (simp_all add: natOfDigits_def digitVal_def isDigit_def)
  show "parseValue D (Some ''9007199254740993'') = Inr (Parsed (PBigInt 9007199254740993) ''Number'')
     \<and> parseValue D (Some ''9007199254740991'') = Inr (Parsed (PNumber (Num 9007199254740991)) ''Number'')"
    using parseValue_digits[OF a(1), of D] parseValue_digits[OF a(2), of D] n by simp
qed

text \<open>
  At the end of input in full-document mode, with no record parsed, \<open>parseLines\<close> returns
  (it does not throw) and the last Diagnostic of the result is the one for \<open>@records\<close>.
\<close>

theorem end_of_input_reports_missing_records:
  assumes "length (lines this) \<le> position this"
    and "onlySection this = None"
    and "records this = []"
  shows "parseLines D P this
           = Some (Inr (ParsedResult (fileRules this) (parsedSchema this) (validations this) []
                          (errors this
                             @ [Diagnostic None (''Missing required section: '' @ sq @ ''@records'' @ sq)])))"
  using assms by (subst parseLines.simps) (simp add: parseLinesEnd_def truthyObject_def)

text \<open>The theorem on the empty sequence of lines.\<close>

theorem end_of_input_reports_missing_records_witness:
  "\<forall>D P. parseLines D P (newSQON None [] :: unit sqon)
           = Some (Inr (ParsedResult False [] [] []
                          [Diagnostic None (''Missing required section: '' @ sq @ ''@records'' @ sq)]))"
proof (intro allI)
  fix D and P :: "unit section_parsers"
  have 1: "length (lines (newSQON None [] :: unit sqon)) \<le> position (newSQON None [] :: unit sqon)"
    by (simp add: newSQON_def)
  have 2: "onlySection (newSQON None [] :: unit sqon) = None" by (simp add: newSQON_def)
  have 3: "records (newSQON None [] :: unit sqon) = []" by (simp add: newSQON_def)
  show "parseLines D P (newSQON None [] :: unit sqon)
           = Some (Inr (ParsedResult False [] [] []
                          [Diagnostic None (''Missing required section: '' @ sq @ ''@records'' @ sq)]))"
    using end_of_input_reports_missing_records[OF 1 2 3, of D P] by (simp add: newSQON_def)
qed

text \<open>
  In the modes \<open>'schema'\<close> and \<open>'records'\<close>, when the cursor is on the marker of the
  requested section and the section compiler returns, \<open>parseLines\<close> returns at once
  with that section's content alone and the first 50 of its Diagnostics.
\<close>

theorem single_section_returns_at_marker:
  assumes "position this < length (lines this)"
  shows "(lines this ! position this = ''@schema'' \<and> onlySection this = Some OnlySchema
            \<and> schemaParser P allowedTypes (lines this) (position this + 1) = Inr (sch, errs, ls, pos)
          \<longrightarrow> parseLines D P this
                = Some (Inr (ParsedResult (fileRules this) sch [] [] (errors this @ take 50 errs))))
       \<and> (lines this ! position this = ''@records'' \<and> onlySection this = Some OnlyRecords
            \<and> recordParser P (lines this) (position this + 1) 500 = Inr (errs, recs, pos)
          \<longrightarrow> parseLines D P this
                = Some (Inr (ParsedResult (fileRules this) [] [] recs (errors this @ take 50 errs))))"
proof (intro conjI impI)
  assume "lines this ! position this = ''@schema'' \<and> onlySection this = Some OnlySchema
            \<and> schemaParser P allowedTypes (lines this) (position this + 1) = Inr (sch, errs, ls, pos)"
  with assms show "parseLines D P this
                = Some (Inr (ParsedResult (fileRules this) sch [] [] (errors this @ take 50 errs)))"
    by (subst parseLines.simps)
       (simp add: parseLinesStep_def SQON_parseSchema_def advance_def MAX_ERRORS_def startsWith_def)
next
  assume "lines this ! position this = ''@records'' \<and> onlySection this = Some OnlyRecords
            \<and> recordParser P (lines this) (position this + 1) 500 = Inr (errs, recs, pos)"
  with assms show "parseLines D P this
                = Some (Inr (ParsedResult (fileRules this) [] [] recs (errors this @ take 50 errs)))"
    by (subst parseLines.simps)
       (simp add: parseLinesStep_def SQON_parseRecords_def advance_def MAX_ERRORS_def startsWith_def)
qed

text \<open>The theorem for a compiler pair that reports sixty Diagnostics.\<close>

theorem single_section_returns_at_marker_witness:
  "\<forall>D. parseLines D sixtyErrors (newSQON (Some OnlySchema) [''@schema'', ''a -> Foo'', ''@end''])
         = Some (Inr (ParsedResult False [] [] []
                        (replicate 50 (Diagnostic (Some 1) ''bad type''))))
     \<and> parseLines D sixtyErrors (newSQON (Some OnlyRecords) [''@records'', ''@end''])
         = Some (Inr (ParsedResult False [] [] []
                        (replicate 50 (Diagnostic (Some 1) ''bad record''))))"
proof
  fix D
  let ?a = "newSQON (Some OnlySchema) [''@schema'', ''a -> Foo'', ''@end''] :: unit sqon"
  let ?b = "newSQON (Some OnlyRecords) [''@records'', ''@end''] :: unit sqon"
  have a: "position ?a < length (lines ?a)" and b: "position ?b < length (lines ?b)"
    by (simp_all add: newSQON_def)
  have a1: "lines ?a ! position ?a = ''@schema'' \<and> onlySection ?a = Some OnlySchema
       \<and> schemaParser sixtyErrors allowedTypes (lines ?a) (position ?a + 1)
           = Inr ([], replicate 60 (Diagnostic (Some 1) ''bad type''), lines ?a, position ?a + 1)"
    by (simp add: newSQON_def sixtyErrors_def)
  have b1: "lines ?b ! position ?b = ''@records'' \<and> onlySection ?b = Some OnlyRecords
       \<and> recordParser sixtyErrors (lines ?b) (position ?b + 1) 500
           = Inr (replicate 60 (Diagnostic (Some 1) ''bad record''), [], position ?b + 1)"
    by (simp add: newSQON_def sixtyErrors_def)
  have ea: "errors ?a = []" "fileRules ?a = False" and eb: "errors ?b = []" "fileRules ?b = False"
    by (simp_all add: newSQON_def)
  from conjunct1[OF single_section_returns_at_marker[OF a, where P = sixtyErrors and sch = "[]"
         and errs = "replicate 60 (Diagnostic (Some 1) ''bad type'')" and ls = "lines ?a"
         and pos = "position ?a + 1" and D = D]] a1 ea
  have ra: "parseLines D sixtyErrors ?a
         = Some (Inr (ParsedResult False [] [] []
                        (replicate 50 (Diagnostic (Some 1) ''bad type''))))"
    by simp
  from conjunct2[OF single_section_returns_at_marker[OF b, where P = sixtyErrors
         and errs = "replicate 60 (Diagnostic (Some 1) ''bad record'')" and recs = "[]"
         and pos = "position ?b + 1" and D = D]] b1 eb
  have rb: "parseLines D sixtyErrors ?b
         = Some (Inr (ParsedResult False [] [] []
                        (replicate 50 (Diagnostic (Some 1) ''bad record''))))"
    by simp
  from ra rb show "parseLines D sixtyErrors ?a
         = Some (Inr (ParsedResult False [] [] []
                        (replicate 50 (Diagnostic (Some 1) ''bad type''))))
     \<and> parseLines D sixtyErrors ?b
         = Some (Inr (ParsedResult False [] [] []
                        (replicate 50 (Diagnostic (Some 1) ''bad record''))))"
    by blast
qed

end
